theory Spec2Isabelle
  imports
    Complex_Main
    "HOL-Library.Char_ord"
    "HOL-Library.List_Lexorder"
    "HOL-Library.Product_Lexorder"
begin

section \<open>Python values\<close>

text \<open>
  The dashboard server (\<^verbatim>\<open>dashboard_server.py\<close>) reads loosely typed JSON documents and
  SQLite rows. A JSON document is a value of \<open>json\<close>; a Python \<open>dict\<close> read from JSON is
  the list of its items (keys distinct, as \<^verbatim>\<open>json.load\<close> leaves them). Python numbers
  (\<open>int\<close> and \<open>float\<close>) are exact rationals here: the rounding error of binary floating
  point, \<open>nan\<close> and \<open>inf\<close> are outside the model. Strings are lists of 8-bit characters.
  The library functions whose result rests on the interpreter's Unicode tables or on its
  date parser (\<^verbatim>\<open>str.strip\<close>, \<^verbatim>\<open>str.upper\<close>, the class \<^verbatim>\<open>\d\<close> of \<^verbatim>\<open>re\<close>,
  \<^verbatim>\<open>datetime.fromisoformat\<close>) are parameters of the model, the record \<open>pylib\<close>.
  Every exception the modelled code can raise is a value of \<open>py_error\<close>, and a function
  that can raise returns \<open>py_error + 'a\<close> with \<open>Inl\<close> for the exception.
\<close>

datatype py_error = AttributeError | TypeError | ValueError | KeyError | OSError | OperationalError

datatype json =
    JNull
  | JBool bool
  | JNum rat
  | JStr string
  | JArr "json list"
  | JObj "(string \<times> json) list"

type_synonym pydict = "(string \<times> json) list"

text \<open>Truthiness, as \<^verbatim>\<open>if x:\<close>, \<^verbatim>\<open>x or y\<close> and \<^verbatim>\<open>not x\<close> read it.\<close>

fun truthy :: "json \<Rightarrow> bool" where
  "truthy JNull = False"
| "truthy (JBool b) = b"
| "truthy (JNum r) = (r \<noteq> 0)"
| "truthy (JStr s) = (s \<noteq> [])"
| "truthy (JArr xs) = (xs \<noteq> [])"
| "truthy (JObj kvs) = (kvs \<noteq> [])"

text \<open>\<^verbatim>\<open>d.get(k, default)\<close>; \<^verbatim>\<open>d.get(k)\<close> is \<open>dict_get d k JNull\<close>.\<close>

definition dict_get :: "pydict \<Rightarrow> string \<Rightarrow> json \<Rightarrow> json" where
  "dict_get d k dflt = (case map_of d k of None \<Rightarrow> dflt | Some v \<Rightarrow> v)"

text \<open>\<^verbatim>\<open>len(x)\<close>: defined on strings, lists and dicts, TypeError on the rest.\<close>

fun py_len :: "json \<Rightarrow> py_error + nat" where
  "py_len (JStr s) = Inr (length s)"
| "py_len (JArr xs) = Inr (length xs)"
| "py_len (JObj kvs) = Inr (length kvs)"
| "py_len _ = Inl TypeError"

text \<open>Iteration, as \<^verbatim>\<open>list.extend(x)\<close> performs it: the characters of a string, the
  items of a list, the keys of a dict; TypeError on the rest.\<close>

fun py_iter :: "json \<Rightarrow> py_error + json list" where
  "py_iter (JStr s) = Inr (map (\<lambda>c. JStr [c]) s)"
| "py_iter (JArr xs) = Inr xs"
| "py_iter (JObj kvs) = Inr (map (\<lambda>kv. JStr (fst kv)) kvs)"
| "py_iter _ = Inl TypeError"

text \<open>\<^verbatim>\<open>str.lower()\<close>, as the ASCII mapping. It is only ever compared with the keywords
  \<open>running\<close>, \<open>done\<close>, \<open>failed\<close>, \<open>failed_exhausted\<close>, \<open>pending\<close> and \<open>total\<close>, and no
  character outside ASCII lower-cases to a letter of these.\<close>

definition lower_char :: "char \<Rightarrow> char" where
  "lower_char c =
     (case map_of (zip ''ABCDEFGHIJKLMNOPQRSTUVWXYZ'' ''abcdefghijklmnopqrstuvwxyz'') c of
        Some l \<Rightarrow> l | None \<Rightarrow> c)"

definition lower :: "string \<Rightarrow> string" where
  "lower s = map lower_char s"

text \<open>
  The library functions that are parameters: \<open>str_strip lib s\<close> is \<^verbatim>\<open>s.strip()\<close>,
  \<open>str_upper lib s\<close> is \<^verbatim>\<open>s.upper()\<close>, \<open>re_digits lib s\<close> is the longest prefix of \<open>s\<close>
  that \<^verbatim>\<open>\d+\<close> matches (empty when \<open>s\<close> does not start with a decimal digit), and
  \<open>fromisoformat lib s\<close> is \<^verbatim>\<open>datetime.fromisoformat(s).timestamp()\<close>, None when it
  raises.
\<close>

record pylib =
  str_strip :: "string \<Rightarrow> string"
  str_upper :: "string \<Rightarrow> string"
  re_digits :: "string \<Rightarrow> string"
  fromisoformat :: "string \<Rightarrow> rat option"

text \<open>\<^verbatim>\<open>(x or "")\<close> for a column or field that is a string or None.\<close>

definition or_empty :: "string option \<Rightarrow> string" where
  "or_empty x = (case x of None \<Rightarrow> [] | Some s \<Rightarrow> s)"

text \<open>\<^verbatim>\<open>round(x, n)\<close>: to \<open>n\<close> decimals, a tie going to the even neighbour.\<close>

definition round_half_even :: "rat \<Rightarrow> int" where
  "round_half_even x =
     (let f = \<lfloor>x\<rfloor>; d = x - of_int f in
      if d < 1 / 2 then f
      else if 1 / 2 < d then f + 1
      else if even f then f else f + 1)"

definition py_round :: "rat \<Rightarrow> nat \<Rightarrow> rat" where
  "py_round x n = of_int (round_half_even (x * 10 ^ n)) / 10 ^ n"

text \<open>Sequencing of calls that may raise, and a \<^verbatim>\<open>for\<close> loop whose body may raise:
  the first exception ends the loop.\<close>

definition bind_r :: "py_error + 'a \<Rightarrow> ('a \<Rightarrow> py_error + 'b) \<Rightarrow> py_error + 'b" where
  "bind_r m f = (case m of Inl e \<Rightarrow> Inl e | Inr x \<Rightarrow> f x)"

fun for_each :: "('s \<Rightarrow> 'a \<Rightarrow> py_error + 's) \<Rightarrow> 's \<Rightarrow> 'a list \<Rightarrow> py_error + 's" where
  "for_each body acc [] = Inr acc"
| "for_each body acc (x # xs) =
     (case body acc x of
        Inl e \<Rightarrow> Inl e
      | Inr acc' \<Rightarrow> for_each body acc' xs)"

section \<open>Progress summary\<close>

text \<open>
  One entry of \<^verbatim>\<open>tasks_detail\<close>. On the SQLite path \<open>td_started_at\<close> holds the
  timestamp that the source renders with \<^verbatim>\<open>isoformat()\<close>.
\<close>

record task_detail =
  td_id :: json
  td_route :: json
  td_chunk :: json
  td_status :: json
  td_worker :: json
  td_dates_count :: nat
  td_started_at :: json
  td_completed_at :: json

text \<open>The dict both backends return: the keys \<open>total\<close>, \<open>done\<close>, \<open>running\<close>,
  \<open>pending\<close>, \<open>failed\<close>, \<open>percent\<close> and \<open>tasks_detail\<close>.\<close>

record progress =
  p_total :: int
  p_done :: int
  p_running :: int
  p_pending :: int
  p_failed :: int
  p_percent :: rat
  p_tasks_detail :: "task_detail list"

subsection \<open>JSON backend\<close>

text \<open>The loop body of \<^verbatim>\<open>calculate_progress_from_tasks\<close> for one item
  \<open>(task_id, task)\<close> of the task map: the counters \<open>(done, running, pending, failed)\<close>
  and the detail list so far go in, the updated ones come out. \<^verbatim>\<open>task.get\<close> raises
  AttributeError when the task is not a dict, \<^verbatim>\<open>len\<close> raises TypeError when its dates
  have no length.\<close>

type_synonym counters = "int \<times> int \<times> int \<times> int"

fun count_status :: "json \<Rightarrow> counters \<Rightarrow> counters" where
  "count_status status (done, running, pending, failed) =
     (if status = JStr ''DONE'' then (done + 1, running, pending, failed)
      else if status = JStr ''RUNNING'' then (done, running + 1, pending, failed)
      else if status = JStr ''FAILED'' then (done, running, pending, failed + 1)
      else (done, running, pending + 1, failed))"

fun json_task_step ::
  "counters \<times> task_detail list \<Rightarrow> string \<times> json \<Rightarrow> py_error + counters \<times> task_detail list" where
  "json_task_step acc (task_id, JObj t) =
     (let status = dict_get t ''status'' (JStr ''PENDING'') in
      bind_r (py_len (dict_get t ''dates'' (JArr []))) (\<lambda>dates_count.
      Inr (count_status status (fst acc),
           snd acc @
           [\<lparr>td_id = JStr task_id,
             td_route = dict_get t ''route'' JNull,
             td_chunk = dict_get t ''chunk_idx'' JNull,
             td_status = status,
             td_worker = dict_get t ''assigned_worker'' JNull,
             td_dates_count = dates_count,
             td_started_at = dict_get t ''started_at'' JNull,
             td_completed_at = dict_get t ''completed_at'' JNull\<rparr>])))"
| "json_task_step acc (task_id, _) = Inl AttributeError"

text \<open>The key of \<^verbatim>\<open>sorted(tasks_detail, key=lambda x: x.get("id", ""))\<close>: ids are the
  keys of the task map, hence strings.\<close>

definition detail_key :: "task_detail \<Rightarrow> string" where
  "detail_key d = (case td_id d of JStr s \<Rightarrow> s | _ \<Rightarrow> [])"

definition zero_progress :: progress where
  "zero_progress =
     \<lparr>p_total = 0, p_done = 0, p_running = 0, p_pending = 0, p_failed = 0,
      p_percent = 0, p_tasks_detail = []\<rparr>"

text \<open>\<^verbatim>\<open>calculate_progress_from_tasks\<close> from \<^verbatim>\<open>tasks = load_tasks_state()\<close> on:
  the JSON backend. The argument is the loaded document.\<close>

definition progress_from_json :: "json \<Rightarrow> py_error + progress" where
  "progress_from_json tasks =
     (if \<not> truthy tasks then Inr zero_progress
      else case tasks of
        JObj items \<Rightarrow>
          (case for_each json_task_step ((0, 0, 0, 0), []) items of
             Inl e \<Rightarrow> Inl e
           | Inr ((done, running, pending, failed), tasks_detail) \<Rightarrow>
               let total = int (length items);
                   percent = (if total > 0 then of_int done / of_int total * 100 else 0)
               in Inr \<lparr>p_total = total, p_done = done, p_running = running,
                        p_pending = pending, p_failed = failed,
                        p_percent = py_round percent 1,
                        p_tasks_detail = sort_key detail_key tasks_detail\<rparr>)
      | JNum _ \<Rightarrow> Inl TypeError
      | JBool _ \<Rightarrow> Inl TypeError
      | _ \<Rightarrow> Inl AttributeError)"

subsection \<open>SQLite backend\<close>

text \<open>
  The \<^verbatim>\<open>stats\<close> dict of \<^verbatim>\<open>_sqlite_get_task_stats\<close> is a map from its keys to counts.
  A row of \<^verbatim>\<open>SELECT state, COUNT(*) as c FROM chunk_tasks GROUP BY state\<close> is a pair of
  the state (None for NULL) and the count.
\<close>

type_synonym stats = "string \<rightharpoonup> int"

definition stats_init :: stats where
  "stats_init =
     [''total'' \<mapsto> 0, ''pending'' \<mapsto> 0, ''running'' \<mapsto> 0, ''done'' \<mapsto> 0,
      ''failed'' \<mapsto> 0, ''failed_exhausted'' \<mapsto> 0]"

text \<open>\<^verbatim>\<open>stats.get(k, 0)\<close>; also \<^verbatim>\<open>stats[k]\<close> for the keys that are always present.\<close>

definition stats_get :: "stats \<Rightarrow> string \<Rightarrow> int" where
  "stats_get stats k = (case stats k of None \<Rightarrow> 0 | Some c \<Rightarrow> c)"

definition stats_row :: "stats \<Rightarrow> string option \<times> int \<Rightarrow> stats" where
  "stats_row stats row =
     (let state = lower (or_empty (fst row));
          count = snd row;
          stats1 = (if stats state \<noteq> None then stats(state \<mapsto> count) else stats)
      in stats1(''total'' \<mapsto> stats_get stats1 ''total'' + count))"

definition sqlite_get_task_stats :: "(string option \<times> int) list \<Rightarrow> stats" where
  "sqlite_get_task_stats rows =
     (let stats = foldl stats_row stats_init rows
      in stats(''failed'' \<mapsto> stats_get stats ''failed'' + stats_get stats ''failed_exhausted''))"

fun map_sqlite_state_to_task_status :: "string option \<Rightarrow> string" where
  "map_sqlite_state_to_task_status state =
     (let s = lower (or_empty state) in
      if s = ''running'' then ''RUNNING''
      else if s = ''done'' then ''DONE''
      else if s = ''failed'' \<or> s = ''failed_exhausted'' then ''FAILED''
      else ''PENDING'')"

text \<open>
  A row of the running-task query of \<^verbatim>\<open>_calculate_progress_from_sqlite\<close>
  (\<^verbatim>\<open>WHERE state = 'running' ORDER BY updated_at DESC\<close>). \<open>r_dates\<close> is the \<open>dates\<close>
  column as \<^verbatim>\<open>json.loads\<close> decodes it: None when the text does not decode, the empty
  list for a NULL or empty column. The two timestamps are None for NULL.
\<close>

record running_row =
  r_task_id :: json
  r_route :: json
  r_chunk_idx :: json
  r_state :: "string option"
  r_worker_id :: json
  r_dates :: "json option"
  r_lease_expires_at :: "rat option"
  r_updated_at :: "rat option"

definition SQLITE_LEASE_DURATION_SECONDS :: rat where
  "SQLITE_LEASE_DURATION_SECONDS = 900"

text \<open>\<^verbatim>\<open>if x:\<close> on a numeric column: set and not zero.\<close>

definition num_truthy :: "rat option \<Rightarrow> bool" where
  "num_truthy x = (case x of None \<Rightarrow> False | Some r \<Rightarrow> r \<noteq> 0)"

definition started_ts :: "running_row \<Rightarrow> rat option" where
  "started_ts row =
     (if num_truthy (r_lease_expires_at row)
      then map_option (\<lambda>l. l - SQLITE_LEASE_DURATION_SECONDS) (r_lease_expires_at row)
      else if num_truthy (r_updated_at row) then r_updated_at row
      else None)"

text \<open>One row of the running-task detail; \<open>now\<close> is \<^verbatim>\<open>datetime.now()\<close>.\<close>

definition sqlite_task_detail :: "rat \<Rightarrow> running_row \<Rightarrow> py_error + task_detail" where
  "sqlite_task_detail now row =
     (let dates_list = (case r_dates row of None \<Rightarrow> JArr [] | Some v \<Rightarrow> v);
          started_at = (if num_truthy (started_ts row) then started_ts row else Some now)
      in bind_r (py_len dates_list) (\<lambda>dates_count.
         Inr \<lparr>td_id = r_task_id row,
              td_route = r_route row,
              td_chunk = r_chunk_idx row,
              td_status = JStr (map_sqlite_state_to_task_status (r_state row)),
              td_worker = r_worker_id row,
              td_dates_count = dates_count,
              td_started_at = (case started_at of None \<Rightarrow> JNull | Some t \<Rightarrow> JNum t),
              td_completed_at = JNull\<rparr>))"

fun sqlite_task_details :: "rat \<Rightarrow> running_row list \<Rightarrow> py_error + task_detail list" where
  "sqlite_task_details now [] = Inr []"
| "sqlite_task_details now (row # rows) =
     bind_r (sqlite_task_detail now row) (\<lambda>d.
     bind_r (sqlite_task_details now rows) (\<lambda>ds. Inr (d # ds)))"

text \<open>
  What the reads of one poll find in \<^verbatim>\<open>chunk_state.db\<close>: for each query of the source,
  either the rows it returns or the exception that connecting, executing or fetching
  raises (a busy or locked database raises \<^verbatim>\<open>sqlite3.OperationalError\<close> after the
  one-second timeout of \<^verbatim>\<open>_sqlite_connect\<close>). Every read opens a connection of its
  own, so each can fail on its own.
\<close>

record heartbeat_row =
  h_worker_id :: "string option"
  h_status :: "string option"
  h_task_id :: json
  h_route :: json

record route_row =
  t_route :: json
  t_state :: "string option"
  t_dates :: "json option"

record sqlite_db =
  q_task_stats :: "py_error + (string option \<times> int) list"
  q_running_tasks :: "py_error + running_row list"
  q_worker_heartbeats :: "py_error + heartbeat_row list"
  q_route_tasks :: "py_error + route_row list"

definition calculate_progress_from_sqlite :: "rat \<Rightarrow> sqlite_db \<Rightarrow> py_error + progress" where
  "calculate_progress_from_sqlite now db =
     bind_r (q_task_stats db) (\<lambda>rows.
       let stats = sqlite_get_task_stats rows;
           total = stats_get stats ''total'';
           done = stats_get stats ''done'';
           running = stats_get stats ''running'';
           pending = stats_get stats ''pending'';
           failed = stats_get stats ''failed'';
           percent = (if total > 0 then of_int done / of_int total * 100 else 0)
       in bind_r (q_running_tasks db) (\<lambda>running_rows.
          bind_r (sqlite_task_details now running_rows) (\<lambda>tasks_detail.
          Inr \<lparr>p_total = total, p_done = done, p_running = running,
               p_pending = pending, p_failed = failed,
               p_percent = py_round percent 1,
               p_tasks_detail = tasks_detail\<rparr>)))"

subsection \<open>Backend selection\<close>

text \<open>
  The checkpoint directory as one poll finds it. \<open>cp_sqlite\<close> is None when
  \<^verbatim>\<open>chunk_state.db\<close> does not exist; \<open>cp_tasks_state\<close> is None when
  \<^verbatim>\<open>tasks_state.json\<close> is missing or does not load.
\<close>

record checkpoint =
  cp_sqlite :: "sqlite_db option"
  cp_tasks_state :: "json option"

definition sqlite_checkpoint_available :: "checkpoint \<Rightarrow> bool" where
  "sqlite_checkpoint_available cp = (cp_sqlite cp \<noteq> None)"

definition load_tasks_state :: "checkpoint \<Rightarrow> json" where
  "load_tasks_state cp = (case cp_tasks_state cp of None \<Rightarrow> JObj [] | Some tasks \<Rightarrow> tasks)"

text \<open>\<^verbatim>\<open>calculate_progress_from_tasks\<close>: the SQLite read inside \<^verbatim>\<open>try\<close>, any
  exception of it swallowed, then the JSON path.\<close>

definition calculate_progress_from_tasks :: "rat \<Rightarrow> checkpoint \<Rightarrow> py_error + progress" where
  "calculate_progress_from_tasks now cp =
     (case cp_sqlite cp of
        Some db \<Rightarrow>
          (case calculate_progress_from_sqlite now db of
             Inr p \<Rightarrow> Inr p
           | Inl e \<Rightarrow> progress_from_json (load_tasks_state cp))
      | None \<Rightarrow> progress_from_json (load_tasks_state cp))"

section \<open>Worker status and pending routes\<close>

text \<open>\<^verbatim>\<open>str(n)\<close> for an int.\<close>

definition digit_chars :: string where
  "digit_chars = ''0123456789''"

fun show_nat :: "nat \<Rightarrow> string" where
  "show_nat n =
     (if n < 10 then [digit_chars ! n]
      else show_nat (n div 10) @ [digit_chars ! (n mod 10)])"

declare show_nat.simps [simp del]

definition show_int :: "int \<Rightarrow> string" where
  "show_int i = (if i < 0 then CHR ''-'' # show_nat (nat (- i)) else show_nat (nat i))"

text \<open>\<^verbatim>\<open>re.search(r"Worker_(\d+)", s)\<close> and its \<^verbatim>\<open>group(1)\<close>: the leftmost place
  where \<open>Worker_\<close> is followed by a decimal digit, and the longest run of decimal digits
  there.\<close>

fun search_worker_port :: "pylib \<Rightarrow> string \<Rightarrow> string option" where
  "search_worker_port lib [] = None"
| "search_worker_port lib (c # cs) =
     (let digits = re_digits lib (drop 7 (c # cs)) in
      if take 7 (c # cs) = ''Worker_'' \<and> digits \<noteq> [] then Some digits
      else search_worker_port lib cs)"

record worker =
  w_status :: string
  w_active_route :: json
  w_active_task :: json

definition idle_worker :: worker where
  "idle_worker = \<lparr>w_status = ''idle'', w_active_route = JNull, w_active_task = JNull\<rparr>"

type_synonym workers = "string \<rightharpoonup> worker"

text \<open>The part of \<^verbatim>\<open>get_config_from_checkpoint()\<close> that the modelled code reads:
  the ports and the number of OAL workers, as integers.\<close>

record config =
  cfg_ports :: "int list"
  cfg_oal_workers :: int

definition init_workers :: "int list \<Rightarrow> workers" where
  "init_workers ports = foldl (\<lambda>workers port. workers(show_int port \<mapsto> idle_worker)) Map.empty ports"

definition heartbeat_step :: "pylib \<Rightarrow> workers \<Rightarrow> heartbeat_row \<Rightarrow> workers" where
  "heartbeat_step lib workers row =
     (case search_worker_port lib (or_empty (h_worker_id row)) of
        None \<Rightarrow> workers
      | Some port \<Rightarrow>
          if workers port = None then workers
          else if str_upper lib (or_empty (h_status row)) = ''RUNNING'' \<and> truthy (h_task_id row)
          then workers(port \<mapsto> \<lparr>w_status = ''working'', w_active_route = h_route row,
                                  w_active_task = h_task_id row\<rparr>)
          else workers(port \<mapsto> idle_worker))"

fun json_worker_step :: "pylib \<Rightarrow> workers \<Rightarrow> string \<times> json \<Rightarrow> py_error + workers" where
  "json_worker_step lib workers (task_id, JObj t) =
     (if dict_get t ''status'' JNull = JStr ''RUNNING'' then
        (case dict_get t ''assigned_worker'' (JStr []) of
           JStr worker \<Rightarrow>
             (case search_worker_port lib worker of
                None \<Rightarrow> Inr workers
              | Some port \<Rightarrow>
                  if workers port \<noteq> None
                  then Inr (workers(port \<mapsto> \<lparr>w_status = ''working'',
                                              w_active_route = dict_get t ''route'' JNull,
                                              w_active_task = JStr task_id\<rparr>))
                  else Inr workers)
         | _ \<Rightarrow> Inl TypeError)
      else Inr workers)"
| "json_worker_step lib workers (task_id, _) = Inl AttributeError"

text \<open>\<^verbatim>\<open>tasks.items()\<close>: AttributeError when the document is not a dict.\<close>

fun dict_items :: "json \<Rightarrow> py_error + (string \<times> json) list" where
  "dict_items (JObj items) = Inr items"
| "dict_items _ = Inl AttributeError"

text \<open>\<^verbatim>\<open>get_worker_status_from_tasks\<close>. On the SQLite path the read stands in
  \<^verbatim>\<open>try ... finally: conn.close()\<close> with no \<^verbatim>\<open>except\<close>: an exception of the read
  leaves the function.\<close>

definition get_worker_status_from_tasks ::
  "pylib \<Rightarrow> config \<Rightarrow> checkpoint \<Rightarrow> py_error + workers" where
  "get_worker_status_from_tasks lib cfg cp =
     (case cp_sqlite cp of
        Some db \<Rightarrow>
          bind_r (q_worker_heartbeats db) (\<lambda>rows.
          Inr (foldl (heartbeat_step lib) (init_workers (cfg_ports cfg)) rows))
      | None \<Rightarrow>
          bind_r (dict_items (load_tasks_state cp)) (\<lambda>items.
          for_each (json_worker_step lib) (init_workers (cfg_ports cfg)) items))"

record route_info =
  total_tasks :: int
  done_tasks :: int
  pending_dates :: "json list"
  done_dates :: "json list"

type_synonym routes = "json \<rightharpoonup> route_info"

text \<open>A list or a dict is no dict key: \<^verbatim>\<open>route not in pending_by_route\<close> raises
  TypeError for it.\<close>

fun hashable :: "json \<Rightarrow> bool" where
  "hashable (JArr xs) = False"
| "hashable (JObj kvs) = False"
| "hashable _ = True"

definition route_entry :: "routes \<Rightarrow> json \<Rightarrow> route_info" where
  "route_entry m route =
     (case m route of
        None \<Rightarrow> \<lparr>total_tasks = 0, done_tasks = 0, pending_dates = [], done_dates = []\<rparr>
      | Some info \<Rightarrow> info)"

definition sqlite_route_step :: "routes \<Rightarrow> route_row \<Rightarrow> py_error + routes" where
  "sqlite_route_step m row =
     (let route = t_route row;
          state = lower (or_empty (t_state row));
          info = route_entry m route;
          info1 = info\<lparr>total_tasks := total_tasks info + 1\<rparr>
      in if \<not> hashable route then Inl TypeError
         else if state = ''done'' then Inr (m(route \<mapsto> info1\<lparr>done_tasks := done_tasks info1 + 1\<rparr>))
         else bind_r (py_iter (case t_dates row of None \<Rightarrow> JArr [] | Some v \<Rightarrow> v)) (\<lambda>dates_list.
              Inr (m(route \<mapsto> info1\<lparr>pending_dates := pending_dates info1 @ dates_list\<rparr>))))"

fun json_route_step :: "routes \<Rightarrow> string \<times> json \<Rightarrow> py_error + routes" where
  "json_route_step m (task_id, JObj t) =
     (let route = dict_get t ''route'' JNull;
          status = dict_get t ''status'' JNull;
          dates = dict_get t ''dates'' (JArr []);
          info = route_entry m route;
          info1 = info\<lparr>total_tasks := total_tasks info + 1\<rparr>
      in if \<not> hashable route then Inl TypeError
         else bind_r (py_iter dates) (\<lambda>dates_list.
              if status = JStr ''DONE''
              then Inr (m(route \<mapsto> info1\<lparr>done_tasks := done_tasks info1 + 1,
                                            done_dates := done_dates info1 @ dates_list\<rparr>))
              else Inr (m(route \<mapsto> info1\<lparr>pending_dates := pending_dates info1 @ dates_list\<rparr>))))"
| "json_route_step m (task_id, _) = Inl AttributeError"

text \<open>\<^verbatim>\<open>get_pending_routes_info\<close>; its SQLite read has no \<^verbatim>\<open>except\<close> either.\<close>

definition get_pending_routes_info :: "checkpoint \<Rightarrow> py_error + routes" where
  "get_pending_routes_info cp =
     (case cp_sqlite cp of
        Some db \<Rightarrow>
          bind_r (q_route_tasks db) (\<lambda>rows. for_each sqlite_route_step Map.empty rows)
      | None \<Rightarrow>
          bind_r (dict_items (load_tasks_state cp)) (\<lambda>items.
          for_each json_route_step Map.empty items))"

text \<open>The three checkpoint reads at the head of \<^verbatim>\<open>update_status\<close>, in its order.
  \<^verbatim>\<open>update_status\<close> catches nothing around them: what one of them raises leaves
  \<^verbatim>\<open>update_status\<close>, and \<^verbatim>\<open>monitor_loop\<close> logs it and writes no status for
  that poll.\<close>

definition poll_reads ::
  "pylib \<Rightarrow> rat \<Rightarrow> config \<Rightarrow> checkpoint \<Rightarrow> py_error + progress \<times> workers \<times> routes" where
  "poll_reads lib now cfg cp =
     bind_r (calculate_progress_from_tasks now cp) (\<lambda>progress.
     bind_r (get_worker_status_from_tasks lib cfg cp) (\<lambda>workers.
     bind_r (get_pending_routes_info cp) (\<lambda>pending_routes.
     Inr (progress, workers, pending_routes))))"

section \<open>Speed and error metrics\<close>

text \<open>The dict \<^verbatim>\<open>tasks_for_speed\<close> that \<^verbatim>\<open>update_status\<close> builds from the progress
  summary: the keys \<open>done\<close>, \<open>total\<close> and \<open>failed\<close>, all present.\<close>

record task_counts =
  tc_done :: int
  tc_total :: int
  tc_failed :: int

text \<open>The module globals \<^verbatim>\<open>_speed_history\<close>, \<^verbatim>\<open>_last_error_count\<close> and
  \<^verbatim>\<open>_error_rate_history\<close>: the state that \<^verbatim>\<open>calculate_speed_metrics\<close> reads and
  writes.\<close>

record metrics_state =
  speed_history :: "(rat \<times> int) list"
  last_error_count :: int
  error_rate_history :: "(rat \<times> int) list"

record speed_metrics =
  speed_per_minute :: rat
  speed_per_hour :: rat
  recent_errors :: int
  error_rate :: rat
  data_points :: nat

text \<open>\<^verbatim>\<open>calculate_speed_metrics(tasks)\<close> at \<^verbatim>\<open>time.time() = current_time\<close>: the
  returned dict and the globals after the call.\<close>

definition calculate_speed_metrics ::
  "metrics_state \<Rightarrow> rat \<Rightarrow> task_counts \<Rightarrow> speed_metrics \<times> metrics_state" where
  "calculate_speed_metrics st current_time tasks =
     (let tasks_done = tc_done tasks;
          tasks_failed = tc_failed tasks;
          cutoff = current_time - 60;
          sh = filter (\<lambda>(t, d). t > cutoff) (speed_history st @ [(current_time, tasks_done)]);
          speed =
            (if length sh \<ge> 2 then
               let oldest = hd sh;
                   newest = last sh;
                   time_diff = fst newest - fst oldest;
                   tasks_diff = snd newest - snd oldest
               in if time_diff > 0 then of_int tasks_diff / time_diff * 60 else 0
             else 0);
          changed = (tasks_failed \<noteq> last_error_count st);
          erh1 = (if changed
                  then error_rate_history st @ [(current_time, tasks_failed - last_error_count st)]
                  else error_rate_history st);
          last1 = (if changed then tasks_failed else last_error_count st);
          error_cutoff = current_time - 300;
          erh2 = filter (\<lambda>(t, e). t > error_cutoff) erh1;
          errors = sum_list (map snd erh2)
      in (\<lparr>speed_per_minute = py_round speed 2,
           speed_per_hour = py_round (speed * 60) 1,
           recent_errors = errors,
           error_rate = (if errors > 0 then py_round (of_int errors / 5) 2 else 0),
           data_points = length sh\<rparr>,
          \<lparr>speed_history = sh, last_error_count = last1, error_rate_history = erh2\<rparr>))"

section \<open>ETA\<close>

text \<open>\<^verbatim>\<open>format_duration(minutes)\<close>. \<^verbatim>\<open>int(x)\<close> of a number that is at least 0 is its
  floor; \<^verbatim>\<open>x // 60\<close> is the floor of the quotient and \<^verbatim>\<open>x % 60\<close> what is left.\<close>

definition format_duration :: "rat \<Rightarrow> string" where
  "format_duration minutes =
     (if minutes < 1 then ''< 1 min''
      else if minutes < 60 then show_int \<lfloor>minutes\<rfloor> @ '' min''
      else
        let hours = \<lfloor>minutes / 60\<rfloor>;
            mins = \<lfloor>minutes - 60 * of_int hours\<rfloor>
        in if mins > 0 then show_int hours @ ''h '' @ show_int mins @ ''m''
           else show_int hours @ ''h'')"

record eta =
  lf_eta :: "rat option"
  oal_eta :: "rat option"
  total_eta :: "rat option"
  lf_eta_formatted :: string
  oal_eta_formatted :: string
  total_eta_formatted :: string

definition eta_init :: eta where
  "eta_init =
     \<lparr>lf_eta = None, oal_eta = None, total_eta = None,
      lf_eta_formatted = ''N/A'', oal_eta_formatted = ''N/A'', total_eta_formatted = ''N/A''\<rparr>"

text \<open>A JSON value in arithmetic or in a comparison with a number: a number is itself, a
  bool is 0 or 1, anything else raises TypeError.\<close>

fun num_of :: "json \<Rightarrow> py_error + rat" where
  "num_of (JNum r) = Inr r"
| "num_of (JBool b) = Inr (if b then 1 else 0)"
| "num_of _ = Inl TypeError"

text \<open>The block \<^verbatim>\<open># LF ETA\<close> of \<^verbatim>\<open>calculate_eta\<close>, reached with \<open>speed > 0\<close>.\<close>

definition lf_phase :: "eta \<Rightarrow> task_counts \<Rightarrow> rat \<Rightarrow> eta" where
  "lf_phase eta tasks speed =
     (let lf_remaining_tasks = tc_total tasks - tc_done tasks in
      if lf_remaining_tasks > 0 then
        let lf_minutes = of_int lf_remaining_tasks / speed
        in eta\<lparr>lf_eta := Some lf_minutes, lf_eta_formatted := format_duration lf_minutes\<rparr>
      else eta\<lparr>lf_eta_formatted := ''Done''\<rparr>)"

text \<open>The block \<^verbatim>\<open># OAL ETA\<close>. \<open>oal_state\<close> is what \<^verbatim>\<open>load_oal_state()\<close> returned:
  None, or the document of \<^verbatim>\<open>oal_state.json\<close>.\<close>

definition oal_phase :: "eta \<Rightarrow> json option \<Rightarrow> int \<Rightarrow> py_error + eta" where
  "oal_phase eta oal_state oal_workers =
     (if oal_workers > 0 \<and> (case oal_state of None \<Rightarrow> False | Some doc \<Rightarrow> truthy doc) then
        (case oal_state of
           Some (JObj d) \<Rightarrow>
             bind_r (num_of (dict_get d ''total_operations'' (JNum 0))) (\<lambda>total_ops.
             bind_r (num_of (dict_get d ''completed_operations'' (JNum 0))) (\<lambda>completed_ops.
             let remaining_ops = total_ops - completed_ops in
             if remaining_ops > 0 then
               bind_r (num_of (dict_get d ''routes_total_per_pass'' (JNum 0))) (\<lambda>routes_total.
               if routes_total > 0 then
                 let oal_speed = of_int oal_workers * (3 / 2);
                     oal_minutes = remaining_ops / oal_speed
                 in Inr (eta\<lparr>oal_eta := Some oal_minutes,
                              oal_eta_formatted := format_duration oal_minutes\<rparr>)
               else Inr eta)
             else Inr (eta\<lparr>oal_eta_formatted := ''Done''\<rparr>)))
         | _ \<Rightarrow> Inl AttributeError)
      else if oal_workers = 0 then Inr (eta\<lparr>oal_eta_formatted := ''Disabled''\<rparr>)
      else Inr eta)"

text \<open>The block \<^verbatim>\<open># Total ETA\<close>. \<^verbatim>\<open>if eta["lf_eta"]:\<close> holds for a number other
  than 0.\<close>

definition total_phase :: "eta \<Rightarrow> int \<Rightarrow> eta" where
  "total_phase eta oal_workers =
     (let t0 = (0 :: rat);
          t1 = (if num_truthy (lf_eta eta) then t0 + the (lf_eta eta) else t0);
          total_minutes = (if num_truthy (oal_eta eta) then max t1 (the (oal_eta eta)) else t1)
      in if total_minutes > 0
         then eta\<lparr>total_eta := Some total_minutes,
                  total_eta_formatted := format_duration total_minutes\<rparr>
         else if lf_eta_formatted eta = ''Done'' \<and>
                 (oal_eta_formatted eta = ''Done'' \<or> oal_workers = 0)
         then eta\<lparr>total_eta_formatted := ''Done''\<rparr>
         else eta)"

text \<open>\<^verbatim>\<open>calculate_eta(progress, tasks, speed_metrics, oal_state, oal_workers)\<close>; the
  argument \<open>progress\<close> is not read by the source.\<close>

definition calculate_eta ::
  "task_counts \<Rightarrow> speed_metrics \<Rightarrow> json option \<Rightarrow> int \<Rightarrow> py_error + eta" where
  "calculate_eta tasks sm oal_state oal_workers =
     (let speed = speed_per_minute sm in
      if speed \<le> 0 then Inr eta_init
      else
        bind_r (oal_phase (lf_phase eta_init tasks speed) oal_state oal_workers) (\<lambda>eta.
        Inr (total_phase eta oal_workers)))"

section \<open>Overall percentage\<close>


section \<open>Active-run resolution\<close>

text \<open>
  A \<^verbatim>\<open>pathlib.Path\<close> is the list of its parts; \<^verbatim>\<open>p / name\<close> appends a part and
  \<^verbatim>\<open>p.parent\<close> drops the last one. Paths compare as \<^verbatim>\<open>pathlib\<close> compares them on
  POSIX: part by part, each part as a string, a proper prefix being the smaller. That is
  the order of \<open>string list\<close>. \<open>to_path\<close> is \<^verbatim>\<open>Path(s)\<close> on POSIX: the string split
  at \<open>/\<close>, empty parts and \<open>.\<close> dropped, a leading \<open>/\<close> kept as the root part.
\<close>

type_synonym path = "string list"

fun split_on :: "char \<Rightarrow> string \<Rightarrow> string list" where
  "split_on sep [] = [[]]"
| "split_on sep (c # cs) =
     (if c = sep then [] # split_on sep cs
      else case split_on sep cs of
             [] \<Rightarrow> [[c]]
           | part # parts \<Rightarrow> (c # part) # parts)"

definition to_path :: "string \<Rightarrow> path" where
  "to_path s =
     (if take 1 s = ''/'' then [''/''] else []) @
     filter (\<lambda>part. part \<noteq> [] \<and> part \<noteq> ''.'') (split_on CHR ''/'' s)"

definition parent :: "path \<Rightarrow> path" where
  "parent p = butlast p"

text \<open>
  The file system as one call finds it: \<open>fs_exists\<close> is \<^verbatim>\<open>Path.exists()\<close>, \<open>fs_mtime\<close>
  is \<^verbatim>\<open>Path.stat().st_mtime\<close> (None when \<^verbatim>\<open>stat\<close> raises), \<open>fs_json\<close> is
  \<^verbatim>\<open>json.load\<close> of the opened file (None when opening or parsing raises), and
  \<open>fs_glob base\<close> is the result of
  \<^verbatim>\<open>glob.glob(str(base / "**" / "checkpoints" / "run_state.json"), recursive=True)\<close>.
\<close>

record filesystem =
  fs_exists :: "path \<Rightarrow> bool"
  fs_mtime :: "path \<Rightarrow> rat option"
  fs_json :: "path \<Rightarrow> json option"
  fs_glob :: "path \<Rightarrow> path list"

text \<open>The module constants \<^verbatim>\<open>PROJECT_ROOT\<close> and \<^verbatim>\<open>BASE_OUTPUT_DIRS\<close>.\<close>

record settings =
  PROJECT_ROOT :: path
  BASE_OUTPUT_DIRS :: "path list"

definition DASHBOARD_POINTER_FILE :: "settings \<Rightarrow> path" where
  "DASHBOARD_POINTER_FILE cfg = PROJECT_ROOT cfg @ [''.active_output_dir'']"

text \<open>\<^verbatim>\<open>_parse_iso_timestamp\<close>. A truthy value that is no string has no
  \<^verbatim>\<open>replace\<close>, which the function catches like a failure of the parser.\<close>

definition replace_Z :: "string \<Rightarrow> string" where
  "replace_Z s = concat (map (\<lambda>c. if c = CHR ''Z'' then ''+00:00'' else [c]) s)"

definition parse_iso_timestamp :: "pylib \<Rightarrow> json \<Rightarrow> rat" where
  "parse_iso_timestamp lib v =
     (if \<not> truthy v then 0
      else case v of
        JStr s \<Rightarrow> (case fromisoformat lib (replace_Z s) of None \<Rightarrow> 0 | Some t \<Rightarrow> t)
      | _ \<Rightarrow> 0)"

text \<open>\<^verbatim>\<open>_activity_timestamp_for_checkpoint\<close>: the newest of the five work-indicating
  files, \<^verbatim>\<open>run_state.json\<close> not among them.\<close>

definition activity_candidates :: "path \<Rightarrow> path list" where
  "activity_candidates checkpoint_dir =
     map (\<lambda>name. checkpoint_dir @ [name])
       [''chunk_state.db'', ''oal_state.json'', ''flight_booking_data.json'',
        ''worker_heartbeats.json'', ''tasks_state.json'']"

definition activity_timestamp_for_checkpoint :: "filesystem \<Rightarrow> path \<Rightarrow> rat" where
  "activity_timestamp_for_checkpoint fs checkpoint_dir =
     (let mtimes =
            concat (map (\<lambda>p. if fs_exists fs p
                              then (case fs_mtime fs p of None \<Rightarrow> [] | Some m \<Rightarrow> [m])
                              else [])
                        (activity_candidates checkpoint_dir))
      in case mtimes of [] \<Rightarrow> 0 | m # ms \<Rightarrow> fold max ms m)"

text \<open>The ranking key \<open>(is_active, activity_ts, started_ts, run_state_mtime, run_state_file)\<close>;
  tuples compare lexicographically, as in Python.\<close>

type_synonym rank_key = "nat \<times> rat \<times> rat \<times> rat \<times> path"

definition key_path :: "rank_key \<Rightarrow> path" where
  "key_path k = snd (snd (snd (snd k)))"

text \<open>\<^verbatim>\<open>(run_state.get("shutdown_type") or "").strip().upper()\<close>: a truthy value that is no
  string has no \<^verbatim>\<open>strip\<close>.\<close>

definition shutdown_type_of :: "pylib \<Rightarrow> json \<Rightarrow> py_error + string" where
  "shutdown_type_of lib v =
     (if \<not> truthy v then Inr (str_upper lib (str_strip lib []))
      else case v of
        JStr s \<Rightarrow> Inr (str_upper lib (str_strip lib s))
      | _ \<Rightarrow> Inl AttributeError)"

text \<open>The body of the loop of \<^verbatim>\<open>_select_active_run_state_file\<close> up to the key: what
  the \<^verbatim>\<open>try\<close> block computes for one candidate, or the exception that makes the loop
  skip it.\<close>

definition candidate_key ::
  "pylib \<Rightarrow> filesystem \<Rightarrow> path \<Rightarrow> py_error + rank_key" where
  "candidate_key lib fs run_state_file =
     (let checkpoint_dir = parent run_state_file;
          run_state = (case fs_json fs run_state_file of
                         None \<Rightarrow> JObj []
                       | Some doc \<Rightarrow> if truthy doc then doc else JObj [])
      in case run_state of
           JObj d \<Rightarrow>
             bind_r (shutdown_type_of lib (dict_get d ''shutdown_type'' JNull)) (\<lambda>shutdown_type.
             let is_active = (if shutdown_type \<noteq> ''COMPLETED'' then 1 else 0);
                 started_ts = parse_iso_timestamp lib (dict_get d ''started_at'' JNull);
                 activity_ts = activity_timestamp_for_checkpoint fs checkpoint_dir
             in case fs_mtime fs run_state_file of
                  None \<Rightarrow> Inl OSError
                | Some run_state_mtime \<Rightarrow>
                    Inr (is_active, activity_ts, started_ts, run_state_mtime, run_state_file))
         | _ \<Rightarrow> Inl AttributeError)"

definition select_step ::
  "pylib \<Rightarrow> filesystem \<Rightarrow> rank_key option \<Rightarrow> path \<Rightarrow> rank_key option" where
  "select_step lib fs best run_state_file =
     (case candidate_key lib fs run_state_file of
        Inl e \<Rightarrow> best
      | Inr key \<Rightarrow>
          (case best of
             None \<Rightarrow> Some key
           | Some b \<Rightarrow> if key > b then Some key else best))"

definition select_active_run_state_file ::
  "pylib \<Rightarrow> filesystem \<Rightarrow> path list \<Rightarrow> path option" where
  "select_active_run_state_file lib fs run_state_files =
     map_option key_path (foldl (select_step lib fs) None run_state_files)"

text \<open>\<^verbatim>\<open>_read_pointer_file\<close>. \<^verbatim>\<open>data.get\<close> raises for a document that is no dict and
  \<^verbatim>\<open>Path(x)\<close> for a value that is no string; both end in \<^verbatim>\<open>return None\<close>.\<close>

definition read_pointer_file :: "settings \<Rightarrow> filesystem \<Rightarrow> path option" where
  "read_pointer_file cfg fs =
     (if fs_exists fs (DASHBOARD_POINTER_FILE cfg) then
        (case fs_json fs (DASHBOARD_POINTER_FILE cfg) of
           Some (JObj d) \<Rightarrow>
             (case dict_get d ''active_output_dir'' (JStr []) of
                JStr s \<Rightarrow>
                  let active_dir = to_path s in
                  if fs_exists fs active_dir \<and> fs_exists fs (active_dir @ [''checkpoints''])
                  then Some active_dir else None
              | _ \<Rightarrow> None)
         | _ \<Rightarrow> None)
      else None)"

text \<open>The module globals that \<^verbatim>\<open>refresh_active_paths\<close> reads and writes.\<close>

record resolver_state =
  ACTIVE_OUTPUT_DIR :: path
  ACTIVE_CHECKPOINT_DIR :: path
  ACTIVE_LOGS_DIR :: path
  RUN_STATE_FILE :: path
  TASKS_STATE_FILE :: path
  OAL_STATE_FILE :: path
  FLIGHT_BOOKING_FILE :: path
  SQLITE_STATE_DB :: path
  last_active_scan_ts :: rat
  active_run_state_file :: "path option"

text \<open>What a call does to find candidates: a \<^verbatim>\<open>glob.glob\<close> under a base directory,
  and the call of \<^verbatim>\<open>_select_active_run_state_file\<close> on what the globs found.\<close>

datatype scan_event = Glob path | Select "path list"

definition ACTIVE_SCAN_INTERVAL_SECONDS :: rat where
  "ACTIVE_SCAN_INTERVAL_SECONDS = 2"

definition set_paths :: "resolver_state \<Rightarrow> path \<Rightarrow> path \<Rightarrow> resolver_state" where
  "set_paths st output_dir checkpoint_dir =
     st\<lparr>ACTIVE_OUTPUT_DIR := output_dir,
        ACTIVE_CHECKPOINT_DIR := checkpoint_dir,
        ACTIVE_LOGS_DIR := output_dir @ [''logs''],
        RUN_STATE_FILE := checkpoint_dir @ [''run_state.json''],
        TASKS_STATE_FILE := checkpoint_dir @ [''tasks_state.json''],
        OAL_STATE_FILE := checkpoint_dir @ [''oal_state.json''],
        FLIGHT_BOOKING_FILE := checkpoint_dir @ [''flight_booking_data.json''],
        SQLITE_STATE_DB := checkpoint_dir @ [''chunk_state.db'']\<rparr>"

text \<open>\<^verbatim>\<open>refresh_active_paths(force)\<close> at \<^verbatim>\<open>time.time() = now\<close>: the globals after the
  call, and the scan events of the call in their order.\<close>

definition refresh_active_paths ::
  "settings \<Rightarrow> pylib \<Rightarrow> filesystem \<Rightarrow> bool \<Rightarrow> rat \<Rightarrow> resolver_state \<Rightarrow>
     resolver_state \<times> scan_event list" where
  "refresh_active_paths cfg lib fs force now st =
     (if \<not> force \<and> now - last_active_scan_ts st < ACTIVE_SCAN_INTERVAL_SECONDS then (st, [])
      else
        let st1 = st\<lparr>last_active_scan_ts := now\<rparr> in
        case read_pointer_file cfg fs of
          Some pointer_dir \<Rightarrow>
            let output_dir = pointer_dir;
                checkpoint_dir = pointer_dir @ [''checkpoints''];
                st2 = st1\<lparr>active_run_state_file := Some (checkpoint_dir @ [''run_state.json''])\<rparr>
            in (set_paths st2 output_dir checkpoint_dir, [])
        | None \<Rightarrow>
            let all_run_state_files = concat (map (fs_glob fs) (BASE_OUTPUT_DIRS cfg));
                events = map Glob (BASE_OUTPUT_DIRS cfg) @ [Select all_run_state_files];
                selected = select_active_run_state_file lib fs all_run_state_files;
                checkpoint_dir =
                  (case selected of
                     None \<Rightarrow> (case BASE_OUTPUT_DIRS cfg of
                                [] \<Rightarrow> PROJECT_ROOT cfg @ [''outputs'']
                              | base # _ \<Rightarrow> base) @ [''checkpoints'']
                   | Some sel \<Rightarrow> parent sel);
                st2 = (case selected of
                         None \<Rightarrow> st1
                       | Some sel \<Rightarrow> st1\<lparr>active_run_state_file := Some sel\<rparr>);
                output_dir = parent checkpoint_dir
            in (set_paths st2 output_dir checkpoint_dir, events))"

section \<open>Predicates used in the statements\<close>

text \<open>A call returns (raises nothing).\<close>

definition returns :: "py_error + 'a \<Rightarrow> bool" where
  "returns m = (case m of Inl e \<Rightarrow> False | Inr x \<Rightarrow> True)"

text \<open>A task of the JSON task map whose \<open>status\<close> field is absent or is any value
  other than the strings \<open>DONE\<close>, \<open>RUNNING\<close> and \<open>FAILED\<close>.\<close>

fun other_status :: "json \<Rightarrow> bool" where
  "other_status (JObj t) =
     (case map_of t ''status'' of
        None \<Rightarrow> True
      | Some v \<Rightarrow> v \<noteq> JStr ''DONE'' \<and> v \<noteq> JStr ''RUNNING'' \<and> v \<noteq> JStr ''FAILED'')"
| "other_status _ = False"

text \<open>A task that the JSON loop accepts: a dict whose \<open>dates\<close>, when present, have a
  length.\<close>

definition task_ok :: "json \<Rightarrow> bool" where
  "task_ok task =
     (case task of
        JObj t \<Rightarrow> returns (py_len (dict_get t ''dates'' (JArr [])))
      | _ \<Rightarrow> False)"

text \<open>The overall ETA from the two phase ETAs, where a phase without an ETA (None) does
  not take part: the greater of the two, the one that exists, or none.\<close>

definition blend :: "rat option \<Rightarrow> rat option \<Rightarrow> rat option" where
  "blend a b =
     (case (a, b) of
        (Some x, Some y) \<Rightarrow> Some (max x y)
      | (Some x, None) \<Rightarrow> Some x
      | (None, Some y) \<Rightarrow> Some y
      | (None, None) \<Rightarrow> None)"

text \<open>The event that one metrics sample appends to the error history: none when the
  failed counter equals its value at the previous sample, else the difference.\<close>

definition error_event :: "metrics_state \<Rightarrow> rat \<Rightarrow> task_counts \<Rightarrow> (rat \<times> int) list" where
  "error_event st current_time tasks =
     (if tc_failed tasks \<noteq> last_error_count st
      then [(current_time, tc_failed tasks - last_error_count st)] else [])"

text \<open>The keys of the candidates that the selection loop does not skip, in the order of
  the candidates.\<close>

definition candidate_keys ::
  "pylib \<Rightarrow> filesystem \<Rightarrow> path list \<Rightarrow> rank_key list" where
  "candidate_keys lib fs run_state_files =
     concat (map (\<lambda>f. case candidate_key lib fs f of Inl e \<Rightarrow> [] | Inr k \<Rightarrow> [k])
                 run_state_files)"

text \<open>A pointer file that exists, parses to a dict and names, under \<open>active_output_dir\<close>,
  the directory \<open>dir\<close>, which exists together with its \<open>checkpoints\<close> subdirectory.\<close>

definition valid_pointer :: "settings \<Rightarrow> filesystem \<Rightarrow> path \<Rightarrow> bool" where
  "valid_pointer cfg fs dir =
     (fs_exists fs (DASHBOARD_POINTER_FILE cfg) \<and>
      (case fs_json fs (DASHBOARD_POINTER_FILE cfg) of
         Some (JObj d) \<Rightarrow>
           (case map_of d ''active_output_dir'' of
              Some (JStr s) \<Rightarrow> to_path s = dir
            | _ \<Rightarrow> False)
       | _ \<Rightarrow> False) \<and>
      fs_exists fs dir \<and> fs_exists fs (dir @ [''checkpoints'']))"

text \<open>
  The components of the ranking key in the words of the specification. The run-state
  document of a candidate, as far as the ranking reads it: the dict the file holds, and
  the empty dict when the file does not load or holds a falsy value.
\<close>

definition run_state_doc :: "filesystem \<Rightarrow> path \<Rightarrow> pydict" where
  "run_state_doc fs f = (case fs_json fs f of Some (JObj doc) \<Rightarrow> doc | _ \<Rightarrow> [])"

text \<open>The shutdown-type marker: the field \<open>shutdown_type\<close> when it is a string, else the
  empty string, stripped and in upper case. A candidate is active unless it equals
  \<open>COMPLETED\<close>.\<close>

definition shutdown_marker :: "pylib \<Rightarrow> pydict \<Rightarrow> string" where
  "shutdown_marker lib doc =
     str_upper lib (str_strip lib
       (case map_of doc ''shutdown_type'' of Some (JStr s) \<Rightarrow> s | _ \<Rightarrow> []))"

text \<open>The last activity time of a checkpoint directory: the greatest modification time
  among the work-indicating files that exist there (database, secondary-phase state,
  primary payload, worker heartbeats, task state), and 0 when none does. The run-state
  file is not among them.\<close>

definition work_files :: "string list" where
  "work_files =
     [''chunk_state.db'', ''oal_state.json'', ''flight_booking_data.json'',
      ''worker_heartbeats.json'', ''tasks_state.json'']"

definition work_mtimes :: "filesystem \<Rightarrow> path \<Rightarrow> rat set" where
  "work_mtimes fs dir =
     {m. \<exists>name \<in> set work_files.
           fs_exists fs (dir @ [name]) \<and> fs_mtime fs (dir @ [name]) = Some m}"

definition newest_work_mtime :: "filesystem \<Rightarrow> path \<Rightarrow> rat" where
  "newest_work_mtime fs dir =
     (if work_mtimes fs dir = {} then 0 else Max (work_mtimes fs dir))"

text \<open>The start time: the field \<open>started_at\<close> parsed as an ISO timestamp (a \<open>Z\<close> read
  as \<open>+00:00\<close>) when it is a non-empty string that parses, else 0.\<close>

definition started_at_ts :: "pylib \<Rightarrow> pydict \<Rightarrow> rat" where
  "started_at_ts lib doc =
     (case map_of doc ''started_at'' of
        Some (JStr s) \<Rightarrow>
          (if s = [] then 0
           else case fromisoformat lib (replace_Z s) of Some t \<Rightarrow> t | None \<Rightarrow> 0)
      | _ \<Rightarrow> 0)"

text \<open>The candidates the ranking skips: those whose \<^verbatim>\<open>stat\<close> raises, those whose file
  holds a truthy value that is no dict, and those whose field \<open>shutdown_type\<close> is a
  truthy value that is no string.\<close>

definition skipped :: "filesystem \<Rightarrow> path \<Rightarrow> bool" where
  "skipped fs f =
     (fs_mtime fs f = None \<or>
      (case fs_json fs f of
         None \<Rightarrow> False
       | Some doc \<Rightarrow>
           truthy doc \<and>
           (case doc of
              JObj d \<Rightarrow>
                (case map_of d ''shutdown_type'' of
                   None \<Rightarrow> False
                 | Some v \<Rightarrow> truthy v \<and> (case v of JStr s \<Rightarrow> False | _ \<Rightarrow> True))
            | _ \<Rightarrow> True)))"

text \<open>The modification times of those files of a list that exist and can be
  \<^verbatim>\<open>stat\<close>ed, in the order of the list.\<close>

definition mtimes_of :: "filesystem \<Rightarrow> path list \<Rightarrow> rat list" where
  "mtimes_of fs ps =
     concat (map (\<lambda>p. if fs_exists fs p
                        then (case fs_mtime fs p of None \<Rightarrow> [] | Some m \<Rightarrow> [m])
                        else []) ps)"

text \<open>\<^verbatim>\<open>str(p)\<close> of a path on POSIX: the parts joined by \<open>/\<close> after the root.\<close>

fun join_parts :: "string list \<Rightarrow> string" where
  "join_parts [] = []"
| "join_parts [part] = part"
| "join_parts (part # parts) = part @ ''/'' @ join_parts parts"

definition path_str :: "path \<Rightarrow> string" where
  "path_str p =
     (case p of
        [] \<Rightarrow> ''.''
      | part # parts \<Rightarrow> if part = ''/'' then ''/'' @ join_parts parts else join_parts p)"

section \<open>Example inputs\<close>

text \<open>A file system in which every \<^verbatim>\<open>run_state.json\<close> has the modification time 10,
  none of them loads, no work-indicating file exists, and the pointer file names
  \<^verbatim>\<open>/out/new\<close>, which exists with its \<open>checkpoints\<close> subdirectory; the project root
  is \<^verbatim>\<open>/proj\<close> and the only base directory \<^verbatim>\<open>/out\<close>.\<close>

definition example_settings :: settings where
  "example_settings = \<lparr>PROJECT_ROOT = [''/'', ''proj''], BASE_OUTPUT_DIRS = [[''/'', ''out'']]\<rparr>"

definition example_fs :: filesystem where
  "example_fs =
     \<lparr>fs_exists = (\<lambda>p. p \<in> set [[''/'', ''proj'', ''.active_output_dir''],
                                  [''/'', ''out'', ''new''],
                                  [''/'', ''out'', ''new'', ''checkpoints'']]),
      fs_mtime = (\<lambda>p. Some 10),
      fs_json = (\<lambda>p. if p = [''/'', ''proj'', ''.active_output_dir'']
                     then Some (JObj [(''active_output_dir'', JStr ''/out/new'')]) else None),
      fs_glob = (\<lambda>base. [[''/'', ''out'', ''a'', ''checkpoints'', ''run_state.json''],
                         [''/'', ''out'', ''b'', ''checkpoints'', ''run_state.json'']])\<rparr>"

text \<open>A library for strings of ASCII characters, on which its functions return what
  Python's return: white space is the ASCII white space, the case mapping that of the 26
  letters, the decimal digits \<open>0\<close> to \<open>9\<close>. Of the date parser it holds one entry.\<close>

definition ascii_space :: "char \<Rightarrow> bool" where
  "ascii_space c = (c \<in> set [CHR '' '', CHR 0x09, CHR 0x0A, CHR 0x0B, CHR 0x0C, CHR 0x0D,
                              CHR 0x1C, CHR 0x1D, CHR 0x1E, CHR 0x1F])"

definition ascii_strip :: "string \<Rightarrow> string" where
  "ascii_strip s = rev (dropWhile ascii_space (rev (dropWhile ascii_space s)))"

definition ascii_upper_char :: "char \<Rightarrow> char" where
  "ascii_upper_char c =
     (case map_of (zip ''abcdefghijklmnopqrstuvwxyz'' ''ABCDEFGHIJKLMNOPQRSTUVWXYZ'') c of
        Some u \<Rightarrow> u | None \<Rightarrow> c)"

definition ascii_upper :: "string \<Rightarrow> string" where
  "ascii_upper s = map ascii_upper_char s"

definition ascii_digits :: "string \<Rightarrow> string" where
  "ascii_digits s = takeWhile (\<lambda>c. c \<in> set digit_chars) s"

definition example_lib :: pylib where
  "example_lib =
     \<lparr>str_strip = ascii_strip, str_upper = ascii_upper, re_digits = ascii_digits,
      fromisoformat = (\<lambda>s. if s = ''2025-01-01T00:00:00+00:00'' then Some 1735689600 else None)\<rparr>"

text \<open>The globals one second after a resolution that chose \<^verbatim>\<open>/out/old\<close>.\<close>

definition example_state :: resolver_state where
  "example_state =
     set_paths
       \<lparr>ACTIVE_OUTPUT_DIR = [], ACTIVE_CHECKPOINT_DIR = [], ACTIVE_LOGS_DIR = [],
        RUN_STATE_FILE = [], TASKS_STATE_FILE = [], OAL_STATE_FILE = [],
        FLIGHT_BOOKING_FILE = [], SQLITE_STATE_DB = [],
        last_active_scan_ts = 100,
        active_run_state_file = Some [''/'', ''out'', ''old'', ''checkpoints'', ''run_state.json'']\<rparr>
       [''/'', ''out'', ''old''] [''/'', ''out'', ''old'', ''checkpoints'']"

text \<open>
  A file system with five candidate run-state files. Run \<open>x\<close> is completed (its marker
  is \<open>completed\<close> between blanks), started on 2025-01-01, its run-state file has the
  modification time 50 and its newest work file (of two) the time 45. Run \<open>y\<close> has no
  shutdown marker and a start time that does not parse, run-state time 20 and one work
  file of time 30. The run-state file of run \<open>z\<close> cannot be read at all. The runs
  \<open>a/b\<close> and \<open>a-b\<close> have run-state files of time 10 that do not load, and no work file.
\<close>

definition ranking_mtimes :: "(path \<times> rat) list" where
  "ranking_mtimes =
     [([''/'', ''out'', ''x'', ''checkpoints'', ''run_state.json''], 50),
      ([''/'', ''out'', ''x'', ''checkpoints'', ''chunk_state.db''], 40),
      ([''/'', ''out'', ''x'', ''checkpoints'', ''tasks_state.json''], 45),
      ([''/'', ''out'', ''y'', ''checkpoints'', ''run_state.json''], 20),
      ([''/'', ''out'', ''y'', ''checkpoints'', ''oal_state.json''], 30),
      ([''/'', ''out'', ''a'', ''b'', ''checkpoints'', ''run_state.json''], 10),
      ([''/'', ''out'', ''a-b'', ''checkpoints'', ''run_state.json''], 10)]"

definition ranking_fs :: filesystem where
  "ranking_fs =
     \<lparr>fs_exists = (\<lambda>p. map_of ranking_mtimes p \<noteq> None),
      fs_mtime = map_of ranking_mtimes,
      fs_json = map_of
        [([''/'', ''out'', ''x'', ''checkpoints'', ''run_state.json''],
          JObj [(''shutdown_type'', JStr '' completed ''),
                (''started_at'', JStr ''2025-01-01T00:00:00Z'')]),
         ([''/'', ''out'', ''y'', ''checkpoints'', ''run_state.json''],
          JObj [(''started_at'', JStr ''yesterday'')])],
      fs_glob = (\<lambda>base. map fst ranking_mtimes)\<rparr>"

section \<open>Properties of the progress summary\<close>

lemma returns_iff: "returns m \<longleftrightarrow> (\<exists>x. m = Inr x)"
  by (cases m) (simp_all add: returns_def)

lemma count_status_sum:
  "count_status s (d, r, pe, f) = (d', r', pe', f') \<Longrightarrow>
     d' + r' + pe' + f' = d + r + pe + f + 1"
  by (auto split: if_splits)

lemma json_task_step_Inr:
  assumes "json_task_step ((d, r, pe, f), ds) item = Inr ((d', r', pe', f'), ds')"
  shows "d' + r' + pe' + f' = d + r + pe + f + 1"
    and "pe' = pe + (if other_status (snd item) then 1 else 0)"
proof -
  obtain task_id task where item: "item = (task_id, task)" by (cases item)
  from assms item obtain t where t: "task = JObj t" by (cases task) auto
  from assms item t have
    st: "count_status (dict_get t ''status'' (JStr ''PENDING'')) (d, r, pe, f) = (d', r', pe', f')"
    by (auto simp: bind_r_def Let_def split: sum.splits)
  from st show "d' + r' + pe' + f' = d + r + pe + f + 1" by (rule count_status_sum)
  from st show "pe' = pe + (if other_status (snd item) then 1 else 0)"
    by (auto simp: item t dict_get_def split: if_splits option.splits)
qed

lemma json_task_loop_Inr:
  "for_each json_task_step ((d, r, pe, f), ds) items = Inr ((d', r', pe', f'), ds') \<Longrightarrow>
     d' + r' + pe' + f' = d + r + pe + f + int (length items) \<and>
     pe' = pe + int (length (filter (\<lambda>item. other_status (snd item)) items))"
proof (induction items arbitrary: d r pe f ds)
  case Nil
  then show ?case by simp
next
  case (Cons item items)
  from Cons.prems obtain acc where
    step: "json_task_step ((d, r, pe, f), ds) item = Inr acc"
    and rest: "for_each json_task_step acc items = Inr ((d', r', pe', f'), ds')"
    by (auto split: sum.splits)
  obtain d1 r1 pe1 f1 ds1 where acc: "acc = ((d1, r1, pe1, f1), ds1)"
    by (cases acc) auto
  from json_task_step_Inr[OF step[unfolded acc]] Cons.IH[OF rest[unfolded acc]]
  show ?case by auto
qed

text \<open>On the JSON backend the four counters add up to the total, and the pending counter
  is the number of tasks with an absent or unrecognised status.\<close>

lemma progress_from_json_counts:
  "progress_from_json (JObj items) = Inr p \<Longrightarrow>
     p_total p = int (length items) \<and>
     p_pending p = int (length (filter (\<lambda>item. other_status (snd item)) items)) \<and>
     p_done p + p_running p + p_pending p + p_failed p = p_total p"
  by (cases "items = []")
    (auto simp: progress_from_json_def zero_progress_def Let_def split: sum.splits
          dest!: json_task_loop_Inr)

lemma json_task_step_total:
  "task_ok (snd item) \<Longrightarrow> returns (json_task_step acc item)"
  by (cases item; cases "snd item")
    (simp_all add: task_ok_def bind_r_def Let_def returns_def split: sum.splits)

lemma json_task_loop_total:
  "list_all (\<lambda>item. task_ok (snd item)) items \<Longrightarrow> returns (for_each json_task_step acc items)"
proof (induction items arbitrary: acc)
  case Nil
  then show ?case by (simp add: returns_def)
next
  case (Cons item items)
  then obtain acc1 where "json_task_step acc item = Inr acc1"
    using json_task_step_total[of item acc] by (auto simp: returns_iff)
  with Cons show ?case by auto
qed

lemma progress_from_json_total:
  "list_all (\<lambda>item. task_ok (snd item)) items \<Longrightarrow> returns (progress_from_json (JObj items))"
  using json_task_loop_total[of items "((0, 0, 0, 0), [])"]
  by (cases "items = []")
    (auto simp: progress_from_json_def Let_def returns_def split: prod.splits sum.splits)

text \<open>
  C1. The claim: on either backend the summary satisfies
  \<open>done + running + pending + failed = total\<close>, also when task rows carry states outside
  \<open>pending\<close>, \<open>running\<close>, \<open>done\<close>, \<open>failed\<close>, \<open>failed_exhausted\<close>. The JSON backend keeps
  it (\<open>progress_from_json_counts\<close>). The SQLite aggregation does not: a group whose state
  is no key of \<open>stats\<close> is added to \<open>total\<close> and to no counter. Here the task table holds
  one task in state \<open>cancelled\<close>, and the summary has total 1 with all four counters 0.
\<close>

theorem sqlite_unknown_state_in_no_counter:
  "calculate_progress_from_tasks 0
     \<lparr>cp_sqlite = Some \<lparr>q_task_stats = Inr [(Some ''cancelled'', 1)],
                         q_running_tasks = Inr [],
                         q_worker_heartbeats = Inr [],
                         q_route_tasks = Inr []\<rparr>,
      cp_tasks_state = None\<rparr>
   = Inr \<lparr>p_total = 1, p_done = 0, p_running = 0, p_pending = 0, p_failed = 0,
          p_percent = 0, p_tasks_detail = []\<rparr>"
  by (simp add: calculate_progress_from_tasks_def calculate_progress_from_sqlite_def bind_r_def
      sqlite_get_task_stats_def stats_row_def stats_init_def stats_get_def lower_def
      lower_char_def or_empty_def Let_def py_round_def round_half_even_def)

text \<open>The same aggregation assigns a group's count to its counter instead of adding it:
  two groups whose states differ only in case (2 tasks \<open>DONE\<close>, 3 tasks \<open>done\<close>) leave
  \<open>done = 3\<close> with \<open>total = 5\<close>.\<close>

lemma sqlite_case_variants_overwrite:
  "calculate_progress_from_tasks 0
     \<lparr>cp_sqlite = Some \<lparr>q_task_stats = Inr [(Some ''DONE'', 2), (Some ''done'', 3)],
                         q_running_tasks = Inr [],
                         q_worker_heartbeats = Inr [],
                         q_route_tasks = Inr []\<rparr>,
      cp_tasks_state = None\<rparr>
   = Inr \<lparr>p_total = 5, p_done = 3, p_running = 0, p_pending = 0, p_failed = 0,
          p_percent = 60, p_tasks_detail = []\<rparr>"
  by code_simp

text \<open>
  C10. In the JSON backend the pending counter is exactly the number of tasks whose status
  is absent or is anything but \<open>DONE\<close>, \<open>RUNNING\<close>, \<open>FAILED\<close>, and every task is in the
  total; the summary is returned whenever every task is a dict whose dates have a length.
  The SQLite task-detail mapping sends every state that does not lower-case to
  \<open>running\<close>, \<open>done\<close>, \<open>failed\<close> or \<open>failed_exhausted\<close> (NULL included) to \<open>PENDING\<close>.
\<close>

theorem unrecognised_status_is_pending:
  "(\<forall>p. progress_from_json (JObj items) = Inr p \<longrightarrow>
        p_total p = int (length items) \<and>
        p_pending p = int (length (filter (\<lambda>item. other_status (snd item)) items))) \<and>
   (list_all (\<lambda>item. task_ok (snd item)) items \<longrightarrow> returns (progress_from_json (JObj items))) \<and>
   (lower (or_empty state) \<notin> set [''running'', ''done'', ''failed'', ''failed_exhausted''] \<longrightarrow>
      map_sqlite_state_to_task_status state = ''PENDING'')"
proof (intro conjI allI impI)
  fix p
  assume "progress_from_json (JObj items) = Inr p"
  from progress_from_json_counts[OF this]
  show "p_total p = int (length items)"
    and "p_pending p = int (length (filter (\<lambda>item. other_status (snd item)) items))"
    by simp_all
next
  assume "list_all (\<lambda>item. task_ok (snd item)) items"
  then show "returns (progress_from_json (JObj items))" by (rule progress_from_json_total)
next
  assume "lower (or_empty state) \<notin> set [''running'', ''done'', ''failed'', ''failed_exhausted'']"
  then show "map_sqlite_state_to_task_status state = ''PENDING''" by (simp add: Let_def)
qed

theorem unrecognised_status_is_pending_witness:
  "(\<exists>p. progress_from_json
          (JObj [(''a'', JObj [(''status'', JStr ''done'')]),
                 (''b'', JObj [(''route'', JStr ''CAI-JED'')]),
                 (''c'', JObj [(''status'', JStr ''DONE'')]),
                 (''d'', JObj [(''status'', JNull)])]) = Inr p \<and>
        p_total p = 4 \<and> p_pending p = 3) \<and>
   map_sqlite_state_to_task_status (Some ''Cancelled'') = ''PENDING'' \<and>
   map_sqlite_state_to_task_status None = ''PENDING''"
proof -
  let ?items = "[(''a'', JObj [(''status'', JStr ''done'')]),
                 (''b'', JObj [(''route'', JStr ''CAI-JED'')]),
                 (''c'', JObj [(''status'', JStr ''DONE'')]),
                 (''d'', JObj [(''status'', JNull)])]"
  have ok: "list_all (\<lambda>item. task_ok (snd item)) ?items"
    by (simp add: task_ok_def dict_get_def returns_def)
  have un1: "lower (or_empty (Some ''Cancelled'')) \<notin> set [''running'', ''done'', ''failed'', ''failed_exhausted'']"
    by (simp add: lower_def lower_char_def or_empty_def)
  have un2: "lower (or_empty None) \<notin> set [''running'', ''done'', ''failed'', ''failed_exhausted'']"
    by (simp add: lower_def or_empty_def)
  note a = unrecognised_status_is_pending[of ?items "Some ''Cancelled''"]
  note b = unrecognised_status_is_pending[of ?items None]
  from a ok have "returns (progress_from_json (JObj ?items))" by blast
  then obtain p where p: "progress_from_json (JObj ?items) = Inr p"
    by (auto simp: returns_iff)
  with a have "p_total p = int (length ?items)"
    and "p_pending p = int (length (filter (\<lambda>item. other_status (snd item)) ?items))"
    by blast+
  then have "p_total p = 4" and "p_pending p = 3" by simp_all
  moreover from a un1 have "map_sqlite_state_to_task_status (Some ''Cancelled'') = ''PENDING''"
    by blast
  moreover from b un2 have "map_sqlite_state_to_task_status None = ''PENDING''"
    by blast
  ultimately show ?thesis using p by blast
qed

section \<open>Properties of the backend fallback\<close>

text \<open>An exception of the SQLite read never leaves \<^verbatim>\<open>calculate_progress_from_tasks\<close>:
  the poll takes the JSON path. The choice is made anew on every call, from the
  checkpoint as that call finds it.\<close>

lemma progress_falls_back_to_json:
  "cp_sqlite cp = Some db \<Longrightarrow> calculate_progress_from_sqlite now db = Inl e \<Longrightarrow>
     calculate_progress_from_tasks now cp = progress_from_json (load_tasks_state cp)"
  by (simp add: calculate_progress_from_tasks_def)

lemma progress_from_sqlite_when_readable:
  "cp_sqlite cp = Some db \<Longrightarrow> calculate_progress_from_sqlite now db = Inr p \<Longrightarrow>
     calculate_progress_from_tasks now cp = Inr p"
  by (simp add: calculate_progress_from_tasks_def)

lemma worker_status_raises:
  "cp_sqlite cp = Some db \<Longrightarrow> q_worker_heartbeats db = Inl e \<Longrightarrow>
     get_worker_status_from_tasks lib cfg cp = Inl e"
  by (simp add: get_worker_status_from_tasks_def bind_r_def)

lemma pending_routes_raises:
  "cp_sqlite cp = Some db \<Longrightarrow> q_route_tasks db = Inl e \<Longrightarrow>
     get_pending_routes_info cp = Inl e"
  by (simp add: get_pending_routes_info_def bind_r_def)

text \<open>
  C2. The claim: in a poll in which \<^verbatim>\<open>chunk_state.db\<close> exists, a read error on the SQL
  path makes every SQL-reading operation of the poll (progress summary, worker status,
  pending routes) fall back to the JSON backend, and is never propagated. The progress
  summary does so (\<open>progress_falls_back_to_json\<close>). The other two do not: their reads
  stand in \<^verbatim>\<open>try ... finally\<close> without \<^verbatim>\<open>except\<close>. Here the database is locked for
  the whole poll and \<^verbatim>\<open>tasks_state.json\<close> holds one finished task: the progress summary
  comes from the JSON file, while the worker status, the pending routes and with them the
  reads of \<^verbatim>\<open>update_status\<close> raise \<^verbatim>\<open>OperationalError\<close>.
\<close>

theorem sqlite_error_leaves_worker_status:
  "calculate_progress_from_tasks 0
     \<lparr>cp_sqlite = Some \<lparr>q_task_stats = Inl OperationalError,
                         q_running_tasks = Inl OperationalError,
                         q_worker_heartbeats = Inl OperationalError,
                         q_route_tasks = Inl OperationalError\<rparr>,
      cp_tasks_state = Some (JObj [(''t1'', JObj [(''status'', JStr ''DONE'')])])\<rparr>
   = Inr \<lparr>p_total = 1, p_done = 1, p_running = 0, p_pending = 0, p_failed = 0,
          p_percent = 100,
          p_tasks_detail =
            [\<lparr>td_id = JStr ''t1'', td_route = JNull, td_chunk = JNull,
              td_status = JStr ''DONE'', td_worker = JNull, td_dates_count = 0,
              td_started_at = JNull, td_completed_at = JNull\<rparr>]\<rparr> \<and>
   get_worker_status_from_tasks lib \<lparr>cfg_ports = [9222], cfg_oal_workers = 0\<rparr>
     \<lparr>cp_sqlite = Some \<lparr>q_task_stats = Inl OperationalError,
                         q_running_tasks = Inl OperationalError,
                         q_worker_heartbeats = Inl OperationalError,
                         q_route_tasks = Inl OperationalError\<rparr>,
      cp_tasks_state = Some (JObj [(''t1'', JObj [(''status'', JStr ''DONE'')])])\<rparr>
   = Inl OperationalError \<and>
   get_pending_routes_info
     \<lparr>cp_sqlite = Some \<lparr>q_task_stats = Inl OperationalError,
                         q_running_tasks = Inl OperationalError,
                         q_worker_heartbeats = Inl OperationalError,
                         q_route_tasks = Inl OperationalError\<rparr>,
      cp_tasks_state = Some (JObj [(''t1'', JObj [(''status'', JStr ''DONE'')])])\<rparr>
   = Inl OperationalError \<and>
   poll_reads lib 0 \<lparr>cfg_ports = [9222], cfg_oal_workers = 0\<rparr>
     \<lparr>cp_sqlite = Some \<lparr>q_task_stats = Inl OperationalError,
                         q_running_tasks = Inl OperationalError,
                         q_worker_heartbeats = Inl OperationalError,
                         q_route_tasks = Inl OperationalError\<rparr>,
      cp_tasks_state = Some (JObj [(''t1'', JObj [(''status'', JStr ''DONE'')])])\<rparr>
   = Inl OperationalError"
  by (simp add: calculate_progress_from_tasks_def calculate_progress_from_sqlite_def bind_r_def
      load_tasks_state_def progress_from_json_def dict_get_def Let_def py_round_def
      round_half_even_def get_worker_status_from_tasks_def get_pending_routes_info_def
      poll_reads_def)

section \<open>Properties of the ETA\<close>

lemma show_nat_digits: "show_nat n \<noteq> [] \<and> set (show_nat n) \<subseteq> set digit_chars"
proof (induction n rule: show_nat.induct)
  case (1 n)
  have len: "length digit_chars = 10" by (simp add: digit_chars_def)
  show ?case
  proof (cases "n < 10")
    case True
    then have "digit_chars ! n \<in> set digit_chars" by (intro nth_mem) (simp add: len)
    with True show ?thesis by (simp add: show_nat.simps[of n])
  next
    case False
    have "digit_chars ! (n mod 10) \<in> set digit_chars" by (intro nth_mem) (simp add: len)
    with False 1 show ?thesis by (simp add: show_nat.simps[of n])
  qed
qed

lemma show_int_hd: "show_int i \<noteq> [] \<and> hd (show_int i) \<in> set (CHR ''-'' # digit_chars)"
proof (cases "i < 0")
  case True
  then show ?thesis by (simp add: show_int_def)
next
  case False
  have "show_nat (nat i) \<noteq> []" and "set (show_nat (nat i)) \<subseteq> set digit_chars"
    using show_nat_digits[of "nat i"] by simp_all
  then have "hd (show_nat (nat i)) \<in> set digit_chars" by (meson hd_in_set subsetD)
  with False \<open>show_nat (nat i) \<noteq> []\<close> show ?thesis by (simp add: show_int_def)
qed

lemma format_duration_hd:
  "format_duration m \<noteq> [] \<and> hd (format_duration m) \<in> set (CHR ''<'' # CHR ''-'' # digit_chars)"
  using show_int_hd[of "\<lfloor>m\<rfloor>"] show_int_hd[of "\<lfloor>m / 60\<rfloor>"]
  by (auto simp: format_duration_def Let_def)

lemma format_duration_not_label:
  "format_duration m \<noteq> ''Done''" "format_duration m \<noteq> ''Disabled''" "format_duration m \<noteq> ''N/A''"
  using format_duration_hd[of m] by (auto simp: digit_chars_def)

text \<open>The duration texts of 0.5, 45, 90 and 120 minutes.\<close>

lemma format_duration_examples:
  "format_duration (1 / 2) = ''< 1 min''"
  "format_duration 45 = ''45 min''"
  "format_duration 90 = ''1h 30m''"
  "format_duration 120 = ''2h''"
  by code_simp+

lemma lf_phase_init:
  assumes "speed > 0"
  shows "oal_eta (lf_phase eta_init tasks speed) = None"
    and "total_eta (lf_phase eta_init tasks speed) = None"
    and "oal_eta_formatted (lf_phase eta_init tasks speed) = ''N/A''"
    and "total_eta_formatted (lf_phase eta_init tasks speed) = ''N/A''"
    and "lf_eta (lf_phase eta_init tasks speed) =
           (if tc_total tasks - tc_done tasks > 0
            then Some (of_int (tc_total tasks - tc_done tasks) / speed) else None)"
    and "lf_eta_formatted (lf_phase eta_init tasks speed) =
           (if tc_total tasks - tc_done tasks > 0
            then format_duration (of_int (tc_total tasks - tc_done tasks) / speed) else ''Done'')"
  by (simp_all add: lf_phase_def eta_init_def Let_def)

lemma oal_phase_frame:
  assumes "oal_phase eta oal_state oal_workers = Inr e"
  shows "lf_eta e = lf_eta eta" "lf_eta_formatted e = lf_eta_formatted eta"
    "total_eta e = total_eta eta" "total_eta_formatted e = total_eta_formatted eta"
  using assms
  by (auto simp: oal_phase_def bind_r_def Let_def
      split: if_splits option.splits json.splits sum.splits)

lemma oal_phase_cases:
  assumes "oal_phase eta oal_state oal_workers = Inr e"
    and "oal_eta eta = None" and "oal_eta_formatted eta = ''N/A''"
  shows "(\<exists>b. oal_eta e = Some b \<and> b > 0 \<and> oal_workers > 0 \<and> oal_eta_formatted e = format_duration b) \<or>
         (oal_eta e = None \<and> oal_eta_formatted e = ''Done'' \<and> oal_workers > 0) \<or>
         (oal_eta e = None \<and> oal_eta_formatted e = ''Disabled'' \<and> oal_workers = 0) \<or>
         (oal_eta e = None \<and> oal_eta_formatted e = ''N/A'' \<and> oal_workers \<noteq> 0)"
  using assms
  by (auto simp: oal_phase_def bind_r_def Let_def
      split: if_splits option.splits json.splits sum.splits)

lemma total_phase_frame:
  "lf_eta (total_phase eta w) = lf_eta eta"
  "oal_eta (total_phase eta w) = oal_eta eta"
  "lf_eta_formatted (total_phase eta w) = lf_eta_formatted eta"
  "oal_eta_formatted (total_phase eta w) = oal_eta_formatted eta"
  by (simp_all add: total_phase_def Let_def)


lemma calculate_eta_pos:
  "speed_per_minute sm > 0 \<Longrightarrow>
   calculate_eta tasks sm oal_state oal_workers =
     bind_r (oal_phase (lf_phase eta_init tasks (speed_per_minute sm)) oal_state oal_workers)
       (\<lambda>eta. Inr (total_phase eta oal_workers))"
  by (simp add: calculate_eta_def Let_def)





text \<open>
  C4 as claimed asks for no other precondition. With operations remaining (10 total, 4
  completed), 2 workers and positive speed, but no \<open>routes_total_per_pass\<close> in the state
  (read as 0), the guard \<^verbatim>\<open>if routes_total > 0\<close> leaves the OAL ETA absent and its text
  \<open>N/A\<close>, not \<open>6 / (2 * 1.5) = 2\<close> minutes.
\<close>

theorem oal_eta_needs_routes_counterexample:
  "calculate_eta \<lparr>tc_done = 0, tc_total = 5, tc_failed = 0\<rparr>
     \<lparr>speed_per_minute = 2, speed_per_hour = 120, recent_errors = 0, error_rate = 0,
      data_points = 2\<rparr>
     (Some (JObj [(''total_operations'', JNum 10), (''completed_operations'', JNum 4)])) 2
   = Inr \<lparr>lf_eta = Some (5 / 2), oal_eta = None, total_eta = Some (5 / 2),
          lf_eta_formatted = ''2 min'', oal_eta_formatted = ''N/A'',
          total_eta_formatted = ''2 min''\<rparr>"
  by code_simp


lemma oal_phase_computed:
  assumes w: "oal_workers > 0" and d: "d \<noteq> []"
    and t: "num_of (dict_get d ''total_operations'' (JNum 0)) = Inr total_ops"
    and c: "num_of (dict_get d ''completed_operations'' (JNum 0)) = Inr completed_ops"
  shows "total_ops - completed_ops \<le> 0 \<Longrightarrow>
           oal_phase eta (Some (JObj d)) oal_workers = Inr (eta\<lparr>oal_eta_formatted := ''Done''\<rparr>)"
    and "total_ops - completed_ops > 0 \<Longrightarrow>
         num_of (dict_get d ''routes_total_per_pass'' (JNum 0)) = Inr routes_total \<Longrightarrow>
           oal_phase eta (Some (JObj d)) oal_workers =
             Inr (if routes_total > 0
                  then eta\<lparr>oal_eta := Some ((total_ops - completed_ops) / (of_int oal_workers * (3 / 2))),
                           oal_eta_formatted :=
                             format_duration ((total_ops - completed_ops) / (of_int oal_workers * (3 / 2)))\<rparr>
                  else eta)"
  using w d t c by (simp_all add: oal_phase_def bind_r_def Let_def)

text \<open>
  C4, as amended. With positive primary speed, a positive OAL worker count and an OAL
  state that is a non-empty dict with numeric operation counts: when operations remain
  and the state's \<open>routes_total_per_pass\<close> is a positive number, the OAL ETA is
  \<open>(total_operations - completed_operations) / (oal_workers * 1.5)\<close> minutes; when none
  remain, the OAL ETA is absent and reads \<open>Done\<close>.
\<close>

theorem oal_eta_formula:
  assumes "speed_per_minute sm > 0" and "oal_workers > 0" and "d \<noteq> []"
    and "num_of (dict_get d ''total_operations'' (JNum 0)) = Inr total_ops"
    and "num_of (dict_get d ''completed_operations'' (JNum 0)) = Inr completed_ops"
  shows "(total_ops - completed_ops > 0 \<and>
          (\<exists>routes_total. num_of (dict_get d ''routes_total_per_pass'' (JNum 0)) = Inr routes_total \<and>
                           routes_total > 0) \<longrightarrow>
            (\<exists>e. calculate_eta tasks sm (Some (JObj d)) oal_workers = Inr e \<and>
                 oal_eta e = Some ((total_ops - completed_ops) / (of_int oal_workers * (3 / 2))) \<and>
                 oal_eta_formatted e =
                   format_duration ((total_ops - completed_ops) / (of_int oal_workers * (3 / 2))))) \<and>
         (total_ops - completed_ops \<le> 0 \<longrightarrow>
            (\<exists>e. calculate_eta tasks sm (Some (JObj d)) oal_workers = Inr e \<and>
                 oal_eta e = None \<and> oal_eta_formatted e = ''Done''))"
proof (intro conjI impI)
  let ?e1 = "lf_phase eta_init tasks (speed_per_minute sm)"
  note comp = oal_phase_computed[OF assms(2-5)]
  {
    assume "total_ops - completed_ops > 0 \<and>
          (\<exists>routes_total. num_of (dict_get d ''routes_total_per_pass'' (JNum 0)) = Inr routes_total \<and>
                           routes_total > 0)"
    then obtain routes_total where rem: "total_ops - completed_ops > 0"
      and rt: "num_of (dict_get d ''routes_total_per_pass'' (JNum 0)) = Inr routes_total"
      and pos: "routes_total > 0" by blast
    from comp(2)[OF rem rt, of ?e1] pos
    show "\<exists>e. calculate_eta tasks sm (Some (JObj d)) oal_workers = Inr e \<and>
                 oal_eta e = Some ((total_ops - completed_ops) / (of_int oal_workers * (3 / 2))) \<and>
                 oal_eta_formatted e =
                   format_duration ((total_ops - completed_ops) / (of_int oal_workers * (3 / 2)))"
      by (simp add: calculate_eta_pos[OF assms(1)] bind_r_def total_phase_frame)
  }
  {
    assume "total_ops - completed_ops \<le> 0"
    from comp(1)[OF this, of ?e1]
    show "\<exists>e. calculate_eta tasks sm (Some (JObj d)) oal_workers = Inr e \<and>
                 oal_eta e = None \<and> oal_eta_formatted e = ''Done''"
      by (simp add: calculate_eta_pos[OF assms(1)] bind_r_def total_phase_frame
          lf_phase_init[OF assms(1)])
  }
qed

text \<open>
  The amended C4 at two states: 10 operations of which 4 are completed, 5 routes per pass
  and 2 workers give 2 minutes; 10 of 10 completed give \<open>Done\<close>.
\<close>

theorem oal_eta_formula_witness:
  "(\<exists>e. calculate_eta \<lparr>tc_done = 0, tc_total = 5, tc_failed = 0\<rparr>
          \<lparr>speed_per_minute = 2, speed_per_hour = 120, recent_errors = 0, error_rate = 0,
           data_points = 2\<rparr>
          (Some (JObj [(''total_operations'', JNum 10), (''completed_operations'', JNum 4),
                       (''routes_total_per_pass'', JNum 5)])) 2 = Inr e \<and>
        oal_eta e = Some 2) \<and>
   (\<exists>e. calculate_eta \<lparr>tc_done = 0, tc_total = 5, tc_failed = 0\<rparr>
          \<lparr>speed_per_minute = 2, speed_per_hour = 120, recent_errors = 0, error_rate = 0,
           data_points = 2\<rparr>
          (Some (JObj [(''total_operations'', JNum 10), (''completed_operations'', JNum 10)])) 2 = Inr e \<and>
        oal_eta e = None \<and> oal_eta_formatted e = ''Done'')"
proof -
  let ?sm = "\<lparr>speed_per_minute = 2, speed_per_hour = 120, recent_errors = 0, error_rate = 0,
           data_points = 2\<rparr>"
  let ?d1 = "[(''total_operations'', JNum 10), (''completed_operations'', JNum 4),
                       (''routes_total_per_pass'', JNum 5)]"
  let ?d2 = "[(''total_operations'', JNum 10), (''completed_operations'', JNum 10)]"
  have sp: "speed_per_minute ?sm > 0" and w: "(2::int) > 0" by simp_all
  have a: "?d1 \<noteq> []" "num_of (dict_get ?d1 ''total_operations'' (JNum 0)) = Inr 10"
    "num_of (dict_get ?d1 ''completed_operations'' (JNum 0)) = Inr 4"
    "num_of (dict_get ?d1 ''routes_total_per_pass'' (JNum 0)) = Inr 5"
    by (simp_all add: dict_get_def)
  have b: "?d2 \<noteq> []" "num_of (dict_get ?d2 ''total_operations'' (JNum 0)) = Inr 10"
    "num_of (dict_get ?d2 ''completed_operations'' (JNum 0)) = Inr 10"
    by (simp_all add: dict_get_def)
  from oal_eta_formula[OF sp w a(1-3), of "\<lparr>tc_done = 0, tc_total = 5, tc_failed = 0\<rparr>"] a(4)
  have 1: "\<exists>e. calculate_eta \<lparr>tc_done = 0, tc_total = 5, tc_failed = 0\<rparr> ?sm (Some (JObj ?d1)) 2 = Inr e \<and>
        oal_eta e = Some 2"
    by auto
  from oal_eta_formula[OF sp w b(1-3), of "\<lparr>tc_done = 0, tc_total = 5, tc_failed = 0\<rparr>"]
  have 2: "\<exists>e. calculate_eta \<lparr>tc_done = 0, tc_total = 5, tc_failed = 0\<rparr> ?sm (Some (JObj ?d2)) 2 = Inr e \<and>
        oal_eta e = None \<and> oal_eta_formatted e = ''Done''"
    by simp
  from 1 2 show ?thesis by blast
qed


lemma total_phase_result:
  assumes "\<And>a. lf_eta eta = Some a \<Longrightarrow> a > 0" and "\<And>b. oal_eta eta = Some b \<Longrightarrow> b > 0"
    and "total_eta eta = None" and "total_eta_formatted eta = ''N/A''"
  shows "total_eta (total_phase eta w) = blend (lf_eta eta) (oal_eta eta)"
    and "total_eta_formatted (total_phase eta w) =
           (case blend (lf_eta eta) (oal_eta eta) of
              Some m \<Rightarrow> format_duration m
            | None \<Rightarrow> if lf_eta_formatted eta = ''Done'' \<and>
                         (oal_eta_formatted eta = ''Done'' \<or> w = 0)
                      then ''Done'' else ''N/A'')"
  using assms
  by (cases "lf_eta eta"; cases "oal_eta eta";
      force simp: total_phase_def num_truthy_def Let_def blend_def max_def)+

text \<open>
  C5, as amended. Of a call that returns: the overall ETA in minutes is the greater of the
  two phase ETAs when both exist, the one that exists when one does, and absent when
  neither does; with the OAL phase disabled (worker count not positive) there is no OAL
  ETA and the overall ETA is the primary one. The overall text is \<open>Done\<close> only if the
  primary text is \<open>Done\<close> and the OAL text is \<open>Done\<close> or the worker count is 0. The overall
  text is never \<open>Disabled\<close>: with worker count 0 and positive speed it is the OAL text
  that reads \<open>Disabled\<close>.
\<close>

theorem total_eta_blend:
  assumes "calculate_eta tasks sm oal_state oal_workers = Inr e"
  shows "total_eta e = blend (lf_eta e) (oal_eta e) \<and>
         (oal_workers \<le> 0 \<longrightarrow> oal_eta e = None \<and> total_eta e = lf_eta e) \<and>
         (total_eta_formatted e = ''Done'' \<longrightarrow>
            lf_eta_formatted e = ''Done'' \<and> (oal_eta_formatted e = ''Done'' \<or> oal_workers = 0)) \<and>
         total_eta_formatted e \<noteq> ''Disabled'' \<and>
         (oal_workers = 0 \<and> speed_per_minute sm > 0 \<longrightarrow> oal_eta_formatted e = ''Disabled'')"
proof (cases "speed_per_minute sm > 0")
  case False
  with assms have "e = eta_init" by (simp add: calculate_eta_def Let_def)
  with False show ?thesis by (simp add: eta_init_def blend_def)
next
  case pos: True
  let ?e1 = "lf_phase eta_init tasks (speed_per_minute sm)"
  from assms pos obtain e2 where
    e2: "oal_phase ?e1 oal_state oal_workers = Inr e2"
    and e: "e = total_phase e2 oal_workers"
    by (auto simp: calculate_eta_pos bind_r_def split: sum.splits)
  note fr = oal_phase_frame[OF e2]
  note l1 = lf_phase_init[OF pos, of tasks]
  have lfpos: "\<And>a. lf_eta e2 = Some a \<Longrightarrow> a > 0"
    using pos by (auto simp: fr l1 split: if_splits)
  note oc = oal_phase_cases[OF e2 l1(1) l1(3)]
  have oalpos: "\<And>b. oal_eta e2 = Some b \<Longrightarrow> b > 0" using oc by auto
  have t0: "total_eta e2 = None" "total_eta_formatted e2 = ''N/A''" by (simp_all add: fr l1)
  note tp = total_phase_result[OF lfpos oalpos t0, of oal_workers]
  have A: "total_eta e = blend (lf_eta e) (oal_eta e)"
    by (simp add: e tp total_phase_frame)
  have B: "oal_workers \<le> 0 \<longrightarrow> oal_eta e = None \<and> total_eta e = lf_eta e"
    using oc by (auto simp: e tp total_phase_frame blend_def split: option.splits)
  have C: "total_eta_formatted e = ''Done'' \<longrightarrow>
            lf_eta_formatted e = ''Done'' \<and> (oal_eta_formatted e = ''Done'' \<or> oal_workers = 0)"
    by (auto simp: e tp(2) total_phase_frame format_duration_not_label split: option.splits if_splits)
  have D: "total_eta_formatted e \<noteq> ''Disabled''"
    by (auto simp: e tp(2) format_duration_not_label split: option.splits if_splits)
  have E: "oal_workers = 0 \<and> speed_per_minute sm > 0 \<longrightarrow> oal_eta_formatted e = ''Disabled''"
    using oc by (auto simp: e total_phase_frame)
  from A B C D E show ?thesis by blast
qed

text \<open>
  C5 as claimed has the overall text \<open>Disabled\<close> when the OAL worker count is 0. With
  worker count 0, all 5 of 5 tasks done and speed 2, the overall text is \<open>Done\<close>; the OAL
  text is the one that reads \<open>Disabled\<close>.
\<close>

theorem overall_eta_disabled_counterexample:
  "calculate_eta \<lparr>tc_done = 5, tc_total = 5, tc_failed = 0\<rparr>
     \<lparr>speed_per_minute = 2, speed_per_hour = 120, recent_errors = 0, error_rate = 0,
      data_points = 2\<rparr> None 0
   = Inr \<lparr>lf_eta = None, oal_eta = None, total_eta = None,
          lf_eta_formatted = ''Done'', oal_eta_formatted = ''Disabled'',
          total_eta_formatted = ''Done''\<rparr>"
  by code_simp

text \<open>
  The amended C5 at two inputs: both phases running (5/2 and 3 minutes, overall 3), and
  the primary phase done with the OAL phase disabled.
\<close>

theorem total_eta_blend_witness:
  "(\<exists>e. calculate_eta \<lparr>tc_done = 0, tc_total = 5, tc_failed = 0\<rparr>
          \<lparr>speed_per_minute = 2, speed_per_hour = 120, recent_errors = 0, error_rate = 0,
           data_points = 2\<rparr>
          (Some (JObj [(''total_operations'', JNum 10), (''completed_operations'', JNum 1),
                       (''routes_total_per_pass'', JNum 5)])) 2 = Inr e \<and>
        lf_eta e = Some (5 / 2) \<and> oal_eta e = Some 3 \<and> total_eta e = Some 3) \<and>
   (\<exists>e. calculate_eta \<lparr>tc_done = 5, tc_total = 5, tc_failed = 0\<rparr>
          \<lparr>speed_per_minute = 2, speed_per_hour = 120, recent_errors = 0, error_rate = 0,
           data_points = 2\<rparr> None 0 = Inr e \<and>
        total_eta_formatted e = ''Done'' \<and> lf_eta_formatted e = ''Done'' \<and>
        oal_eta_formatted e = ''Disabled'' \<and> oal_eta e = None \<and> total_eta e = lf_eta e)"
proof -
  let ?sm = "\<lparr>speed_per_minute = 2, speed_per_hour = 120, recent_errors = 0, error_rate = 0,
           data_points = 2\<rparr>"
  let ?t1 = "\<lparr>tc_done = 0, tc_total = 5, tc_failed = 0\<rparr>"
  let ?st = "Some (JObj [(''total_operations'', JNum 10), (''completed_operations'', JNum 1),
                       (''routes_total_per_pass'', JNum 5)])"
  let ?e1 = "\<lparr>lf_eta = Some (5 / 2), oal_eta = Some 3, total_eta = Some 3,
          lf_eta_formatted = ''2 min'', oal_eta_formatted = ''3 min'',
          total_eta_formatted = ''3 min''\<rparr>"
  let ?t2 = "\<lparr>tc_done = 5, tc_total = 5, tc_failed = 0\<rparr>"
  have ev1: "calculate_eta ?t1 ?sm ?st 2 = Inr ?e1" by code_simp
  from total_eta_blend[OF ev1] have "total_eta ?e1 = blend (lf_eta ?e1) (oal_eta ?e1)" by blast
  then have 1: "total_eta ?e1 = Some 3" by (simp add: blend_def)
  have "returns (calculate_eta ?t2 ?sm None 0)" by code_simp
  then obtain e2 where ev2: "calculate_eta ?t2 ?sm None 0 = Inr e2"
    by (auto simp: returns_def split: sum.splits)
  have fmt: "total_eta_formatted e2 = ''Done''"
    using ev2 by (simp add: calculate_eta_def lf_phase_def oal_phase_def total_phase_def
        eta_init_def num_truthy_def Let_def bind_r_def) auto
  have side: "(0::int) \<le> 0" "speed_per_minute ?sm > 0" by simp_all
  from total_eta_blend[OF ev2] fmt side
  have 2: "lf_eta_formatted e2 = ''Done'' \<and> oal_eta_formatted e2 = ''Disabled'' \<and>
           oal_eta e2 = None \<and> total_eta e2 = lf_eta e2" by blast
  from ev1 1 ev2 fmt 2 show ?thesis by auto
qed

section \<open>Properties of the metrics\<close>

text \<open>A count divided by 5 has at most one decimal: rounding to two changes nothing.\<close>

lemma py_round_fifths: "py_round (of_int k / 5) 2 = of_int k / 5"
proof -
  have "(of_int k / 5 * 10 ^ 2 :: rat) = of_int (20 * k)" by simp
  then have "round_half_even (of_int k / 5 * 10 ^ 2) = 20 * k"
    by (simp only: round_half_even_def Let_def floor_of_int) simp
  then show ?thesis by (simp add: py_round_def)
qed


text \<open>Three samples, at 0, 30 and 60 seconds with 0, 15 and 30 tasks done, from empty
  histories: the speed after the third is 30 tasks per minute.\<close>

lemma speed_of_three_samples:
  "speed_per_minute
     (fst (calculate_speed_metrics
        (snd (calculate_speed_metrics
           (snd (calculate_speed_metrics
              \<lparr>speed_history = [], last_error_count = 0, error_rate_history = []\<rparr> 0
              \<lparr>tc_done = 0, tc_total = 40, tc_failed = 0\<rparr>))
           30 \<lparr>tc_done = 15, tc_total = 40, tc_failed = 0\<rparr>))
        60 \<lparr>tc_done = 30, tc_total = 40, tc_failed = 0\<rparr>)) = 30"
  by code_simp

text \<open>
  C6, as amended. On each metrics sample an event is appended to the error history exactly
  when the failed counter differs from its value at the previous sample; the event holds
  the difference, which is positive when the counter went up and negative when it went
  down. The history is then cut to the last 300 seconds, \<open>recent_errors\<close> is the sum of
  the differences kept, and \<open>error_rate\<close> is that sum divided by 5 when the sum is
  positive and 0 otherwise.
\<close>

theorem error_event_on_any_change:
  assumes "calculate_speed_metrics st current_time tasks = (m, st')"
  shows "error_rate_history st' =
           filter (\<lambda>(t, e). t > current_time - 300)
             (error_rate_history st @ error_event st current_time tasks) \<and>
         last_error_count st' = tc_failed tasks \<and>
         recent_errors m = sum_list (map snd (error_rate_history st')) \<and>
         error_rate m = (if recent_errors m > 0 then of_int (recent_errors m) / 5 else 0)"
proof -
  from assms have m: "m = fst (calculate_speed_metrics st current_time tasks)"
    and st': "st' = snd (calculate_speed_metrics st current_time tasks)"
    by simp_all
  have 1: "error_rate_history st' =
           filter (\<lambda>(t, e). t > current_time - 300)
             (error_rate_history st @ error_event st current_time tasks)"
    unfolding st' by (simp add: calculate_speed_metrics_def Let_def error_event_def)
  have 2: "last_error_count st' = tc_failed tasks"
    unfolding st' by (simp add: calculate_speed_metrics_def Let_def)
  have 3: "recent_errors m = sum_list (map snd (error_rate_history st'))"
    unfolding m st' by (simp add: calculate_speed_metrics_def Let_def)
  have 4: "error_rate m = (if recent_errors m > 0 then of_int (recent_errors m) / 5 else 0)"
    unfolding m by (simp add: calculate_speed_metrics_def Let_def py_round_fifths)
  from 1 2 3 4 show ?thesis by blast
qed

text \<open>
  C6 as claimed has an event only on an increase, with a positive difference, and the
  rate equal to the sum divided by 5. With the previous failed count 5 and the current
  one 3, the event \<open>(100, -2)\<close> is appended, the sum is \<open>-2\<close> and the rate is 0, not
  \<open>-2/5\<close>.
\<close>

theorem negative_error_delta_counterexample:
  "calculate_speed_metrics
     \<lparr>speed_history = [], last_error_count = 5, error_rate_history = []\<rparr> 100
     \<lparr>tc_done = 0, tc_total = 10, tc_failed = 3\<rparr>
   = (\<lparr>speed_per_minute = 0, speed_per_hour = 0, recent_errors = - 2, error_rate = 0,
       data_points = 1\<rparr>,
      \<lparr>speed_history = [(100, 0)], last_error_count = 3, error_rate_history = [(100, - 2)]\<rparr>)"
  by code_simp

text \<open>
  The amended C6 at a sample where the failed counter goes from 2 to 5 with one earlier
  event of 1 still in the window: the event \<open>(100, 3)\<close> is appended, the sum is 4 and the
  rate 4/5.
\<close>

theorem error_event_on_any_change_witness:
  "calculate_speed_metrics
     \<lparr>speed_history = [(70, 4)], last_error_count = 2, error_rate_history = [(70, 1)]\<rparr> 100
     \<lparr>tc_done = 9, tc_total = 10, tc_failed = 5\<rparr>
   = (\<lparr>speed_per_minute = 10, speed_per_hour = 600, recent_errors = 4, error_rate = 4 / 5,
       data_points = 2\<rparr>,
      \<lparr>speed_history = [(70, 4), (100, 9)], last_error_count = 5,
       error_rate_history = [(70, 1), (100, 3)]\<rparr>) \<and>
   error_event \<lparr>speed_history = [(70, 4)], last_error_count = 2, error_rate_history = [(70, 1)]\<rparr>
     100 \<lparr>tc_done = 9, tc_total = 10, tc_failed = 5\<rparr> = [(100, 3)]"
proof -
  let ?st = "\<lparr>speed_history = [(70, 4)], last_error_count = 2, error_rate_history = [(70, 1)]\<rparr>"
  let ?t = "\<lparr>tc_done = 9, tc_total = 10, tc_failed = 5\<rparr>"
  obtain m st' where r: "calculate_speed_metrics ?st 100 ?t = (m, st')"
    by (cases "calculate_speed_metrics ?st 100 ?t")
  have ev: "error_event ?st 100 ?t = [(100, 3)]" by (simp add: error_event_def)
  from error_event_on_any_change[OF r] ev
  have h: "error_rate_history st' = [(70, 1), (100, 3)]" "last_error_count st' = 5"
    "recent_errors m = 4" "error_rate m = 4 / 5"
    by simp_all
  have sp: "speed_history st' = [(70, 4), (100, 9)]" "speed_per_minute m = 10"
    "speed_per_hour m = 600" "data_points m = 2"
    using r by (auto simp: calculate_speed_metrics_def Let_def py_round_def round_half_even_def)
  from h sp have "m = \<lparr>speed_per_minute = 10, speed_per_hour = 600, recent_errors = 4,
       error_rate = 4 / 5, data_points = 2\<rparr>"
    and "st' = \<lparr>speed_history = [(70, 4), (100, 9)], last_error_count = 5,
       error_rate_history = [(70, 1), (100, 3)]\<rparr>"
    by simp_all
  with r ev show ?thesis by simp
qed

section \<open>Properties of the overall percentage\<close>




section \<open>Properties of the active-run resolution\<close>

text \<open>
  The order of the ranking keys, component by component.
\<close>

lemma rank_key_less:
  "((a, b, c, d, p) :: rank_key) < (a', b', c', d', p') \<longleftrightarrow>
     a < a' \<or> a = a' \<and> (b < b' \<or> b = b' \<and> (c < c' \<or> c = c' \<and> (d < d' \<or> d = d' \<and> p < p')))"
  by (auto simp: less_prod_def')

lemma candidate_key_path:
  "candidate_key lib fs f = Inr k \<Longrightarrow> key_path k = f"
  by (auto simp: candidate_key_def key_path_def bind_r_def Let_def
      split: json.splits sum.splits option.splits if_splits)

lemma candidate_keys_snoc:
  "candidate_keys lib fs (files @ [f]) =
     candidate_keys lib fs files @
     (case candidate_key lib fs f of Inl e \<Rightarrow> [] | Inr k \<Rightarrow> [k])"
  by (simp add: candidate_keys_def)

lemma set_candidate_keys:
  "set (candidate_keys lib fs files) =
     {k. \<exists>f \<in> set files. candidate_key lib fs f = Inr k}"
  by (induction files) (auto simp: candidate_keys_def split: sum.splits)

text \<open>
  The loop of \<^verbatim>\<open>_select_active_run_state_file\<close> keeps the greatest key seen so far.
\<close>

lemma select_fold:
  "foldl (select_step lib fs) None files =
     (if candidate_keys lib fs files = [] then None
      else Some (Max (set (candidate_keys lib fs files))))"
proof (induction files rule: rev_induct)
  case Nil
  then show ?case by (simp add: candidate_keys_def)
next
  case (snoc f files)
  show ?case
  proof (cases "candidate_key lib fs f")
    case (Inl e)
    with snoc show ?thesis by (simp add: candidate_keys_snoc select_step_def)
  next
    case (Inr k)
    show ?thesis
    proof (cases "candidate_keys lib fs files = []")
      case True
      with snoc Inr show ?thesis by (simp add: candidate_keys_snoc select_step_def)
    next
      case False
      define M where "M = Max (set (candidate_keys lib fs files))"
      from False have mx: "Max (set (candidate_keys lib fs files @ [k])) = max k M"
        unfolding M_def by (simp add: Max_insert)
      from snoc False have best: "foldl (select_step lib fs) None files = Some M"
        unfolding M_def by simp
      have "select_step lib fs (Some M) f = Some (max k M)"
        using Inr by (auto simp: select_step_def max_def)
      with best mx Inr show ?thesis
        by (simp add: candidate_keys_snoc)
    qed
  qed
qed

lemma mtimes_of_simps:
  "mtimes_of fs [] = []"
  "mtimes_of fs (p # ps) =
     (if fs_exists fs p then (case fs_mtime fs p of None \<Rightarrow> [] | Some m \<Rightarrow> [m]) else []) @
     mtimes_of fs ps"
  by (simp_all add: mtimes_of_def)

lemma mtimes_set:
  "set (mtimes_of fs (map (\<lambda>name. dir @ [name]) names)) =
   {m. \<exists>name \<in> set names. fs_exists fs (dir @ [name]) \<and> fs_mtime fs (dir @ [name]) = Some m}"
proof (induction names)
  case Nil
  show ?case by (simp add: mtimes_of_simps)
next
  case (Cons name names)
  show ?case
  proof (cases "fs_exists fs (dir @ [name])")
    case False
    with Cons show ?thesis by (auto simp: mtimes_of_simps)
  next
    case True
    show ?thesis
    proof (cases "fs_mtime fs (dir @ [name])")
      case None
      with True Cons show ?thesis by (auto simp: mtimes_of_simps)
    next
      case (Some m)
      with True Cons show ?thesis by (auto simp: mtimes_of_simps)
    qed
  qed
qed

text \<open>\<^verbatim>\<open>_activity_timestamp_for_checkpoint\<close> returns the greatest modification time
  among the work-indicating files that exist, and 0 when there is none.\<close>

lemma activity_is_newest:
  "activity_timestamp_for_checkpoint fs dir = newest_work_mtime fs dir"
proof -
  define ms where "ms = mtimes_of fs (activity_candidates dir)"
  have act: "activity_timestamp_for_checkpoint fs dir =
               (case ms of [] \<Rightarrow> 0 | m # ms' \<Rightarrow> fold max ms' m)"
    by (simp add: activity_timestamp_for_checkpoint_def ms_def mtimes_of_def Let_def)
  have names: "activity_candidates dir = map (\<lambda>name. dir @ [name]) work_files"
    by (simp add: activity_candidates_def work_files_def)
  have s: "set ms = work_mtimes fs dir"
    unfolding ms_def names work_mtimes_def by (rule mtimes_set)
  show ?thesis
  proof (cases ms)
    case Nil
    with s have "work_mtimes fs dir = {}" by simp
    with Nil act show ?thesis by (simp add: newest_work_mtime_def)
  next
    case (Cons m ms')
    with s have ne: "work_mtimes fs dir \<noteq> {}" and eq: "work_mtimes fs dir = set (m # ms')"
      by auto
    have "fold max ms' m = Max (set (m # ms'))" by (rule Max.set_eq_fold[symmetric])
    with Cons ne eq act show ?thesis by (simp add: newest_work_mtime_def)
  qed
qed

lemma run_state_is_doc:
  assumes "(case fs_json fs f of
              None \<Rightarrow> JObj []
            | Some doc \<Rightarrow> if truthy doc then doc else JObj []) = JObj d"
  shows "run_state_doc fs f = d"
proof (cases "fs_json fs f")
  case None
  with assms show ?thesis by (simp add: run_state_doc_def)
next
  case (Some doc)
  with assms show ?thesis
    by (cases doc) (auto simp: run_state_doc_def split: if_splits)
qed

lemma shutdown_type_is_marker:
  assumes "shutdown_type_of lib (dict_get d ''shutdown_type'' JNull) = Inr st"
  shows "st = shutdown_marker lib d"
proof (cases "map_of d ''shutdown_type''")
  case None
  with assms show ?thesis
    by (simp add: shutdown_type_of_def shutdown_marker_def dict_get_def)
next
  case (Some v)
  with assms show ?thesis
    by (cases v) (auto simp: shutdown_type_of_def shutdown_marker_def dict_get_def split: if_splits)
qed

lemma parse_started_at:
  "parse_iso_timestamp lib (dict_get d ''started_at'' JNull) = started_at_ts lib d"
proof (cases "map_of d ''started_at''")
  case None
  then show ?thesis by (simp add: parse_iso_timestamp_def started_at_ts_def dict_get_def)
next
  case (Some v)
  then show ?thesis
    by (cases v) (auto simp: parse_iso_timestamp_def started_at_ts_def dict_get_def)
qed

text \<open>The key of a candidate that the loop does not skip, component by component.\<close>

lemma candidate_key_components:
  assumes "candidate_key lib fs f = Inr k"
  shows "\<exists>d. fs_mtime fs f = Some d \<and>
            k = (if shutdown_marker lib (run_state_doc fs f) = ''COMPLETED'' then 0 else 1,
                 newest_work_mtime fs (butlast f),
                 started_at_ts lib (run_state_doc fs f),
                 d, f)"
proof -
  let ?rs = "case fs_json fs f of
               None \<Rightarrow> JObj []
             | Some doc \<Rightarrow> if truthy doc then doc else JObj []"
  from assms obtain doc where rs: "?rs = JObj doc"
    by (cases ?rs) (simp_all add: candidate_key_def Let_def)
  from assms rs obtain st where
    st: "shutdown_type_of lib (dict_get doc ''shutdown_type'' JNull) = Inr st"
    by (cases "shutdown_type_of lib (dict_get doc ''shutdown_type'' JNull)")
       (simp_all add: candidate_key_def Let_def bind_r_def)
  from assms rs st obtain m where m: "fs_mtime fs f = Some m"
    by (cases "fs_mtime fs f") (simp_all add: candidate_key_def Let_def bind_r_def)
  from assms rs st m have
    "k = (if st \<noteq> ''COMPLETED'' then 1 else 0,
          activity_timestamp_for_checkpoint fs (parent f),
          parse_iso_timestamp lib (dict_get doc ''started_at'' JNull), m, f)"
    by (simp add: candidate_key_def Let_def bind_r_def)
  with m run_state_is_doc[OF rs] shutdown_type_is_marker[OF st] show ?thesis
    by (simp add: parse_started_at activity_is_newest parent_def)
qed

lemma shutdown_type_of_Inr:
  "(\<exists>st. shutdown_type_of lib v = Inr st) = (\<not> (truthy v \<and> (case v of JStr s \<Rightarrow> False | _ \<Rightarrow> True)))"
  by (cases v) (simp_all add: shutdown_type_of_def)

text \<open>The loop of \<^verbatim>\<open>_select_active_run_state_file\<close> computes a key for exactly the
  candidates that are not skipped.\<close>

lemma candidate_key_skipped:
  "(\<exists>k. candidate_key lib fs f = Inr k) = (\<not> skipped fs f)"
proof -
  let ?rs = "case fs_json fs f of
               None \<Rightarrow> JObj []
             | Some doc \<Rightarrow> if truthy doc then doc else JObj []"
  show ?thesis
  proof (cases ?rs)
    case (JObj d)
    have sk: "skipped fs f = (fs_mtime fs f = None \<or>
         (truthy (dict_get d ''shutdown_type'' JNull) \<and>
          (case dict_get d ''shutdown_type'' JNull of JStr s \<Rightarrow> False | _ \<Rightarrow> True)))"
      using JObj
      by (auto simp: skipped_def dict_get_def split: option.splits json.splits if_splits)
    show ?thesis
    proof (cases "shutdown_type_of lib (dict_get d ''shutdown_type'' JNull)")
      case (Inl e)
      with shutdown_type_of_Inr[of lib "dict_get d ''shutdown_type'' JNull"]
      have "truthy (dict_get d ''shutdown_type'' JNull) \<and>
          (case dict_get d ''shutdown_type'' JNull of JStr s \<Rightarrow> False | _ \<Rightarrow> True)" by simp
      with sk JObj Inl show ?thesis
        by (simp add: candidate_key_def Let_def bind_r_def)
    next
      case (Inr st)
      with shutdown_type_of_Inr[of lib "dict_get d ''shutdown_type'' JNull"]
      have "\<not> (truthy (dict_get d ''shutdown_type'' JNull) \<and>
          (case dict_get d ''shutdown_type'' JNull of JStr s \<Rightarrow> False | _ \<Rightarrow> True))" by auto
      with sk JObj Inr show ?thesis
        by (cases "fs_mtime fs f") (simp_all add: candidate_key_def Let_def bind_r_def)
    qed
  qed (auto simp: candidate_key_def Let_def skipped_def split: option.splits if_splits json.splits)
qed

text \<open>
  C9, as amended. The loop computes a key for exactly the candidates it does not skip; a
  candidate is skipped when its \<^verbatim>\<open>stat\<close> raises or its document or shutdown marker has
  the wrong type. The key of a candidate that is not skipped is \<open>(is_active, activity_ts, started_ts, run_state_mtime, path)\<close>: \<open>is_active\<close>
  is 0 when the stripped, upper-cased shutdown marker equals \<open>COMPLETED\<close> and 1
  otherwise, \<open>activity_ts\<close> is the greatest modification time among the work-indicating
  files of the candidate's directory (0 without any), \<open>started_ts\<close> is the parsed start
  time (0 when absent or unparsable) and \<open>run_state_mtime\<close> the modification time of the
  candidate itself. If no candidate has a key the selection is None. Otherwise the
  selection is a candidate whose key is greater than or equal to the key of every
  candidate, in the lexicographic order of the keys. Of two candidates that agree in the
  first four components, the one with the greater path is selected, in whichever order
  the two are listed, where paths compare as \<^verbatim>\<open>pathlib\<close> compares them: part by part.
\<close>

theorem select_greatest_key:
  "(\<forall>f. (\<exists>k. candidate_key lib fs f = Inr k) = (\<not> skipped fs f)) \<and>
   (\<forall>f k. candidate_key lib fs f = Inr k \<longrightarrow>
      (\<exists>d. fs_mtime fs f = Some d \<and>
           k = (if shutdown_marker lib (run_state_doc fs f) = ''COMPLETED'' then 0 else 1,
                newest_work_mtime fs (butlast f),
                started_at_ts lib (run_state_doc fs f),
                d, f))) \<and>
   (candidate_keys lib fs files = [] \<longrightarrow>
      select_active_run_state_file lib fs files = None) \<and>
   (candidate_keys lib fs files \<noteq> [] \<longrightarrow>
      (\<exists>f k. f \<in> set files \<and> candidate_key lib fs f = Inr k \<and>
             select_active_run_state_file lib fs files = Some f \<and>
             (\<forall>f' k'. f' \<in> set files \<and> candidate_key lib fs f' = Inr k' \<longrightarrow> k' \<le> k))) \<and>
   (candidate_key lib fs fa = Inr (a, b, c, d, fa) \<and>
    candidate_key lib fs fb = Inr (a, b, c, d, fb) \<and> fa < fb \<longrightarrow>
      select_active_run_state_file lib fs [fa, fb] = Some fb \<and>
      select_active_run_state_file lib fs [fb, fa] = Some fb)"
proof -
  have S: "\<forall>f. (\<exists>k. candidate_key lib fs f = Inr k) = (\<not> skipped fs f)"
    using candidate_key_skipped by blast
  have K: "\<forall>f k. candidate_key lib fs f = Inr k \<longrightarrow>
      (\<exists>d. fs_mtime fs f = Some d \<and>
           k = (if shutdown_marker lib (run_state_doc fs f) = ''COMPLETED'' then 0 else 1,
                newest_work_mtime fs (butlast f),
                started_at_ts lib (run_state_doc fs f),
                d, f))"
    using candidate_key_components by blast
  have S0: "candidate_keys lib fs files = [] \<longrightarrow>
      select_active_run_state_file lib fs files = None"
    by (simp add: select_active_run_state_file_def select_fold)
  have S1: "candidate_keys lib fs files \<noteq> [] \<longrightarrow>
      (\<exists>f k. f \<in> set files \<and> candidate_key lib fs f = Inr k \<and>
             select_active_run_state_file lib fs files = Some f \<and>
             (\<forall>f' k'. f' \<in> set files \<and> candidate_key lib fs f' = Inr k' \<longrightarrow> k' \<le> k))"
  proof
    let ?ks = "candidate_keys lib fs files"
    assume ne: "?ks \<noteq> []"
    define k where "k = Max (set ?ks)"
    have "k \<in> set ?ks" unfolding k_def using ne by (intro Max_in) simp_all
    then obtain f where f: "f \<in> set files" "candidate_key lib fs f = Inr k"
      by (auto simp: set_candidate_keys)
    have sel: "select_active_run_state_file lib fs files = Some f"
      using ne candidate_key_path[OF f(2)]
      by (simp add: select_active_run_state_file_def select_fold k_def)
    have "\<forall>f' k'. f' \<in> set files \<and> candidate_key lib fs f' = Inr k' \<longrightarrow> k' \<le> k"
    proof (intro allI impI)
      fix f' k'
      assume "f' \<in> set files \<and> candidate_key lib fs f' = Inr k'"
      then have "k' \<in> set ?ks" by (auto simp: set_candidate_keys)
      then show "k' \<le> k" unfolding k_def by (intro Max_ge) simp_all
    qed
    with f sel show "\<exists>f k. f \<in> set files \<and> candidate_key lib fs f = Inr k \<and>
             select_active_run_state_file lib fs files = Some f \<and>
             (\<forall>f' k'. f' \<in> set files \<and> candidate_key lib fs f' = Inr k' \<longrightarrow> k' \<le> k)"
      by blast
  qed
  have T: "candidate_key lib fs fa = Inr (a, b, c, d, fa) \<and>
    candidate_key lib fs fb = Inr (a, b, c, d, fb) \<and> fa < fb \<longrightarrow>
      select_active_run_state_file lib fs [fa, fb] = Some fb \<and>
      select_active_run_state_file lib fs [fb, fa] = Some fb"
  proof
    assume h: "candidate_key lib fs fa = Inr (a, b, c, d, fa) \<and>
      candidate_key lib fs fb = Inr (a, b, c, d, fb) \<and> fa < fb"
    then have lt: "((a, b, c, d, fa) :: rank_key) < (a, b, c, d, fb)"
      by (simp add: rank_key_less)
    then have nlt: "\<not> ((a, b, c, d, fb) :: rank_key) < (a, b, c, d, fa)"
      by (simp add: rank_key_less)
    from h lt nlt show "select_active_run_state_file lib fs [fa, fb] = Some fb \<and>
      select_active_run_state_file lib fs [fb, fa] = Some fb"
      by (simp add: select_active_run_state_file_def select_step_def key_path_def)
  qed
  from S K S0 S1 T show ?thesis by blast
qed

text \<open>
  C9 as claimed has, of two candidates that agree in the first four components, the one
  with the lexicographically greater path selected. The candidates
  \<^verbatim>\<open>/out/a/b/checkpoints/run_state.json\<close> and \<^verbatim>\<open>/out/a-b/checkpoints/run_state.json\<close> both
  have the key \<open>(1, 0, 0, 10, path)\<close>. The second is selected, because its third part
  \<open>a-b\<close> is greater than the part \<open>a\<close>; as a string it is the smaller of the two, \<open>-\<close>
  coming before \<open>/\<close>.
\<close>

theorem greater_path_string_not_selected_counterexample:
  "candidate_key example_lib ranking_fs
     [''/'', ''out'', ''a'', ''b'', ''checkpoints'', ''run_state.json'']
     = Inr (1, 0, 0, 10, [''/'', ''out'', ''a'', ''b'', ''checkpoints'', ''run_state.json'']) \<and>
   candidate_key example_lib ranking_fs
     [''/'', ''out'', ''a-b'', ''checkpoints'', ''run_state.json'']
     = Inr (1, 0, 0, 10, [''/'', ''out'', ''a-b'', ''checkpoints'', ''run_state.json'']) \<and>
   path_str [''/'', ''out'', ''a-b'', ''checkpoints'', ''run_state.json'']
     < path_str [''/'', ''out'', ''a'', ''b'', ''checkpoints'', ''run_state.json''] \<and>
   select_active_run_state_file example_lib ranking_fs
     [[''/'', ''out'', ''a'', ''b'', ''checkpoints'', ''run_state.json''],
      [''/'', ''out'', ''a-b'', ''checkpoints'', ''run_state.json'']]
     = Some [''/'', ''out'', ''a-b'', ''checkpoints'', ''run_state.json'']"
  by code_simp

text \<open>
  The amended C9 on the ranking file system. Run \<open>x\<close> is not skipped and run \<open>z\<close>, whose
  file cannot be \<^verbatim>\<open>stat\<close>ed, is. The key of run \<open>x\<close> is
  \<open>(0, 45, 1735689600, 50, path)\<close>, so its marker is \<open>COMPLETED\<close>, its newest work file
  has the time 45 and its start time is that of 2025-01-01. Of the runs \<open>x\<close>, \<open>y\<close> and
  \<open>z\<close>, run \<open>y\<close> is selected: it is active, although its files are older, and \<open>z\<close> is
  skipped. No candidate gives None, and of \<open>a/b\<close> and \<open>a-b\<close> the second is selected in
  both orders.
\<close>

theorem select_greatest_key_witness:
  "\<not> skipped ranking_fs [''/'', ''out'', ''x'', ''checkpoints'', ''run_state.json''] \<and>
   skipped ranking_fs [''/'', ''out'', ''z'', ''checkpoints'', ''run_state.json''] \<and>
   shutdown_marker example_lib
     (run_state_doc ranking_fs [''/'', ''out'', ''x'', ''checkpoints'', ''run_state.json''])
     = ''COMPLETED'' \<and>
   newest_work_mtime ranking_fs [''/'', ''out'', ''x'', ''checkpoints''] = 45 \<and>
   started_at_ts example_lib
     (run_state_doc ranking_fs [''/'', ''out'', ''x'', ''checkpoints'', ''run_state.json''])
     = 1735689600 \<and>
   select_active_run_state_file example_lib ranking_fs [] = None \<and>
   select_active_run_state_file example_lib ranking_fs
     [[''/'', ''out'', ''x'', ''checkpoints'', ''run_state.json''],
      [''/'', ''out'', ''y'', ''checkpoints'', ''run_state.json''],
      [''/'', ''out'', ''z'', ''checkpoints'', ''run_state.json'']]
     = Some [''/'', ''out'', ''y'', ''checkpoints'', ''run_state.json''] \<and>
   select_active_run_state_file example_lib ranking_fs
     [[''/'', ''out'', ''a'', ''b'', ''checkpoints'', ''run_state.json''],
      [''/'', ''out'', ''a-b'', ''checkpoints'', ''run_state.json'']]
     = Some [''/'', ''out'', ''a-b'', ''checkpoints'', ''run_state.json''] \<and>
   select_active_run_state_file example_lib ranking_fs
     [[''/'', ''out'', ''a-b'', ''checkpoints'', ''run_state.json''],
      [''/'', ''out'', ''a'', ''b'', ''checkpoints'', ''run_state.json'']]
     = Some [''/'', ''out'', ''a-b'', ''checkpoints'', ''run_state.json'']"
proof -
  let ?X = "[''/'', ''out'', ''x'', ''checkpoints'', ''run_state.json'']"
  let ?Y = "[''/'', ''out'', ''y'', ''checkpoints'', ''run_state.json'']"
  let ?Z = "[''/'', ''out'', ''z'', ''checkpoints'', ''run_state.json'']"
  let ?A = "[''/'', ''out'', ''a'', ''b'', ''checkpoints'', ''run_state.json'']"
  let ?B = "[''/'', ''out'', ''a-b'', ''checkpoints'', ''run_state.json'']"
  have kx: "candidate_key example_lib ranking_fs ?X = Inr (0, 45, 1735689600, 50, ?X)"
    and ky: "candidate_key example_lib ranking_fs ?Y = Inr (1, 30, 0, 20, ?Y)"
    and kz: "candidate_key example_lib ranking_fs ?Z = Inl OSError"
    and ka: "candidate_key example_lib ranking_fs ?A = Inr (1, 0, 0, 10, ?A)"
    and kb: "candidate_key example_lib ranking_fs ?B = Inr (1, 0, 0, 10, ?B)"
    and lt: "?A < ?B"
    by code_simp+
  have e: "candidate_keys example_lib ranking_fs [] = []"
    by (simp add: candidate_keys_def)
  have ne: "candidate_keys example_lib ranking_fs [?X, ?Y, ?Z] \<noteq> []"
    by (simp add: candidate_keys_def kx)
  note t1 = select_greatest_key[where lib = example_lib and fs = ranking_fs
      and files = "[]" and fa = ?A and fb = ?B and a = 1 and b = 0 and c = 0 and d = 10]
  note t2 = select_greatest_key[where lib = example_lib and fs = ranking_fs
      and files = "[?X, ?Y, ?Z]" and fa = ?A and fb = ?B and a = 1 and b = 0 and c = 0
      and d = 10]
  from t1 kx have 0: "\<not> skipped ranking_fs ?X" by blast
  from t1 kz have 00: "skipped ranking_fs ?Z" by (metis sum.distinct(1))
  from t1 kx obtain dx where
    "(0, 45, 1735689600, 50, ?X) =
       (if shutdown_marker example_lib (run_state_doc ranking_fs ?X) = ''COMPLETED''
        then 0 else (1::nat),
        newest_work_mtime ranking_fs (butlast ?X),
        started_at_ts example_lib (run_state_doc ranking_fs ?X), dx, ?X)"
    by blast
  then have 1: "shutdown_marker example_lib (run_state_doc ranking_fs ?X) = ''COMPLETED''"
    and 2: "newest_work_mtime ranking_fs [''/'', ''out'', ''x'', ''checkpoints''] = 45"
    and 3: "started_at_ts example_lib (run_state_doc ranking_fs ?X) = 1735689600"
    by (simp_all split: if_splits)
  from t1 e have 4: "select_active_run_state_file example_lib ranking_fs [] = None"
    by blast
  from t2 ne obtain f k where f: "f \<in> set [?X, ?Y, ?Z]"
    and fk: "candidate_key example_lib ranking_fs f = Inr k"
    and sel: "select_active_run_state_file example_lib ranking_fs [?X, ?Y, ?Z] = Some f"
    and mx: "\<forall>f' k'. f' \<in> set [?X, ?Y, ?Z] \<and> candidate_key example_lib ranking_fs f' = Inr k'
               \<longrightarrow> k' \<le> k"
    by blast
  have "f = ?Y"
  proof (rule ccontr)
    assume "f \<noteq> ?Y"
    with f fk kz have fx: "f = ?X" by auto
    with fk kx have "k = (0, 45, 1735689600, 50, ?X)" by simp
    moreover have "?Y \<in> set [?X, ?Y, ?Z]" by simp
    with mx ky have "(1, 30, 0, 20, ?Y) \<le> k" by blast
    ultimately show False by simp
  qed
  with sel have 5: "select_active_run_state_file example_lib ranking_fs [?X, ?Y, ?Z] = Some ?Y"
    by simp
  from t2 ka kb lt
  have 6: "select_active_run_state_file example_lib ranking_fs [?A, ?B] = Some ?B \<and>
           select_active_run_state_file example_lib ranking_fs [?B, ?A] = Some ?B"
    by blast
  from 0 00 1 2 3 4 5 6 show ?thesis by blast
qed

lemma read_valid_pointer:
  "valid_pointer cfg fs dir \<Longrightarrow> read_pointer_file cfg fs = Some dir"
  by (auto simp: valid_pointer_def read_pointer_file_def dict_get_def Let_def
      split: option.splits json.splits)

text \<open>
  C8, as amended. In every call of \<^verbatim>\<open>refresh_active_paths\<close> that finds a valid pointer
  file naming \<open>dir\<close>, no scan event happens: no \<^verbatim>\<open>glob\<close> and no candidate selection. If
  the call is not answered from the cache (\<open>force\<close> is set, or at least 2 seconds have
  passed since the last resolution), the active output directory becomes \<open>dir\<close>, the
  checkpoint directory \<open>dir/checkpoints\<close>, and the state files are the ones in it. A call
  within the 2 seconds leaves the globals as they are.
\<close>

theorem valid_pointer_never_scans:
  assumes "valid_pointer cfg fs dir"
  shows "snd (refresh_active_paths cfg lib fs force now st) = [] \<and>
         (force \<or> ACTIVE_SCAN_INTERVAL_SECONDS \<le> now - last_active_scan_ts st \<longrightarrow>
            fst (refresh_active_paths cfg lib fs force now st) =
              set_paths
                (st\<lparr>last_active_scan_ts := now,
                    active_run_state_file := Some (dir @ [''checkpoints'', ''run_state.json''])\<rparr>)
                dir (dir @ [''checkpoints''])) \<and>
         (\<not> force \<and> now - last_active_scan_ts st < ACTIVE_SCAN_INTERVAL_SECONDS \<longrightarrow>
            fst (refresh_active_paths cfg lib fs force now st) = st)"
  using read_valid_pointer[OF assms]
  by (auto simp: refresh_active_paths_def Let_def)

lemma set_paths_fields:
  "ACTIVE_OUTPUT_DIR (set_paths st output_dir checkpoint_dir) = output_dir"
  "ACTIVE_CHECKPOINT_DIR (set_paths st output_dir checkpoint_dir) = checkpoint_dir"
  "SQLITE_STATE_DB (set_paths st output_dir checkpoint_dir) = checkpoint_dir @ [''chunk_state.db'']"
  by (simp_all add: set_paths_def)

text \<open>
  C8 as claimed speaks of every resolution call. One second after a resolution that
  chose \<^verbatim>\<open>/out/old\<close>, with a valid pointer file naming \<^verbatim>\<open>/out/new\<close> on disk, a call without
  \<open>force\<close> returns at the cache test and the active output directory is still
  \<^verbatim>\<open>/out/old\<close>.
\<close>

theorem cached_call_keeps_old_directory_counterexample:
  "valid_pointer example_settings example_fs [''/'', ''out'', ''new''] \<and>
   ACTIVE_OUTPUT_DIR (fst (refresh_active_paths example_settings example_lib example_fs
                             False 101 example_state))
     = [''/'', ''out'', ''old'']"
  by code_simp

text \<open>
  The amended C8 on the example file system: three seconds after the last resolution
  the call switches to \<^verbatim>\<open>/out/new\<close> without a scan event; one second after it the call
  changes nothing, again without a scan event.
\<close>

theorem valid_pointer_never_scans_witness:
  "refresh_active_paths example_settings example_lib example_fs False 103 example_state =
     (set_paths
        (example_state\<lparr>last_active_scan_ts := 103,
            active_run_state_file :=
              Some [''/'', ''out'', ''new'', ''checkpoints'', ''run_state.json'']\<rparr>)
        [''/'', ''out'', ''new''] [''/'', ''out'', ''new'', ''checkpoints''], []) \<and>
   refresh_active_paths example_settings example_lib example_fs False 101 example_state =
     (example_state, [])"
proof -
  have v: "valid_pointer example_settings example_fs [''/'', ''out'', ''new'']" by code_simp
  have g1: "ACTIVE_SCAN_INTERVAL_SECONDS \<le> 103 - last_active_scan_ts example_state"
    and g2: "\<not> False \<and> 101 - last_active_scan_ts example_state < ACTIVE_SCAN_INTERVAL_SECONDS"
    by code_simp+
  note t1 = valid_pointer_never_scans[OF v, of example_lib False 103 example_state]
  note t2 = valid_pointer_never_scans[OF v, of example_lib False 101 example_state]
  from t1 g1 have "snd (refresh_active_paths example_settings example_lib example_fs False 103 example_state) = []"
    and "fst (refresh_active_paths example_settings example_lib example_fs False 103 example_state) =
     set_paths
        (example_state\<lparr>last_active_scan_ts := 103,
            active_run_state_file :=
              Some ([''/'', ''out'', ''new''] @ [''checkpoints'', ''run_state.json''])\<rparr>)
        [''/'', ''out'', ''new''] ([''/'', ''out'', ''new''] @ [''checkpoints''])"
    by blast+
  then have 1: "refresh_active_paths example_settings example_lib example_fs False 103 example_state =
     (set_paths
        (example_state\<lparr>last_active_scan_ts := 103,
            active_run_state_file :=
              Some [''/'', ''out'', ''new'', ''checkpoints'', ''run_state.json'']\<rparr>)
        [''/'', ''out'', ''new''] [''/'', ''out'', ''new'', ''checkpoints''], [])"
    by (simp add: prod_eq_iff)
  from t2 g2 have "snd (refresh_active_paths example_settings example_lib example_fs False 101 example_state) = []"
    and "fst (refresh_active_paths example_settings example_lib example_fs False 101 example_state) = example_state"
    by blast+
  then have 2: "refresh_active_paths example_settings example_lib example_fs False 101 example_state =
     (example_state, [])"
    by (simp add: prod_eq_iff)
  from 1 2 show ?thesis by blast
qed

end
